theory Spec2Isabelle
  imports Complex_Main "HOL-Library.Signed_Division"
begin

section \<open>The BoeBot rescue controller (boebot\_rescue.c)\<close>

text \<open>
  The controller is one C file: a name test on recognized objects (\<open>is_survivor\<close>) and
  \<open>main\<close>, which acquires the devices, enables them and then runs one
  sense / decide / act pass per simulation step.

  Conventions of the embedding.
  \<^item> A \<open>double\<close> is the real number it denotes (NaN and rounding of literals are not
    represented); the code only compares readings and assigns literal speeds.
  \<^item> The C \<open>int\<close> counters are \<open>int\<close>. \<open>aid_deploy_counter\<close> is only ever
    decremented when positive or set to 50, so it cannot leave the range of a C
    \<open>int\<close>; C's remainder \<open>%\<close> truncates towards zero and is \<open>smod\<close>.
  \<^item> A device tag is \<open>True\<close> when \<open>wb_robot_get_device\<close> returned a non-zero tag.
  \<^item> Every call into the simulator that acts on the world, and every \<open>printf\<close>, is an
    \<open>event\<close>; a function returns the events it caused, in program order.
  \<^item> The \<open>while\<close> loop runs for as long as the simulator grants steps: it is a
    recursion over the list of per-step inputs the simulator supplies.
\<close>

subsection \<open>Constants\<close>

definition TIME_STEP :: int where
  "TIME_STEP = 64"

definition FORWARD_SPEED :: real where
  "FORWARD_SPEED = 5.0"

definition TURN_SPEED :: real where
  "TURN_SPEED = 4.0"

definition AID_DEPLOY_DURATION :: int where
  "AID_DEPLOY_DURATION = 50"

definition OBSTACLE_DISTANCE_THRESHOLD :: real where
  "OBSTACLE_DISTANCE_THRESHOLD = 0.3"

definition TILT_THRESHOLD :: real where
  "TILT_THRESHOLD = 3.5"

definition SURVIVOR_DETECTION_RANGE :: real where
  "SURVIVOR_DETECTION_RANGE = 0.4"

definition SURVIVOR_OBJECT_NAME :: string where
  "SURVIVOR_OBJECT_NAME = ''SurvivorObstacle''"

definition EMITTER_CHANNEL :: int where
  "EMITTER_CHANNEL = 1"

definition SURVIVOR_MESSAGE :: string where
  "SURVIVOR_MESSAGE = ''SURVIVOR_FOUND''"

text \<open>The initial value of every entry of \<open>ds_values\<close>.\<close>

definition DS_SENTINEL :: real where
  "DS_SENTINEL = 999.0"

subsection \<open>Data\<close>

datatype RobotState = SEARCHING | AVOIDING_OBSTACLE | DEPLOYING_AID | ROBOT_TILTED

text \<open>
  A \<open>WbNodeRef\<close> is either the null pointer or a node; of a node the program reads only
  what \<open>wb_supervisor_node_get_name\<close> returns for it, a C string or \<open>NULL\<close>.
\<close>

datatype WbNodeRef = NullRef | NodeRef "string option"

fun wb_supervisor_node_get_name :: "WbNodeRef \<Rightarrow> string option" where
  "wb_supervisor_node_get_name NullRef = None"
| "wb_supervisor_node_get_name (NodeRef n) = n"

record devices =
  left_motor :: bool
  right_motor :: bool
  ds_front :: bool
  ds_left :: bool
  ds_right :: bool
  accelerometer :: bool
  emitter :: bool
  left_led :: bool
  right_led :: bool

text \<open>
  What the simulator would answer in one step: per distance sensor its value and the
  nodes of its recognized objects, and the accelerometer's three axes.
\<close>

record ds_input =
  ds_value :: real
  ds_objects :: "WbNodeRef list"

record tick_input =
  front_in :: ds_input
  left_in :: ds_input
  right_in :: ds_input
  accel_values :: "real \<times> real \<times> real"

text \<open>The variables that live across iterations of the loop.\<close>

record ctrl =
  current_state :: RobotState
  aid_deploy_counter :: int
  debug_print_counter :: int

datatype side = LeftSide | RightSide

datatype log_line =
    WarnDistanceSensorNotFound nat
  | WarnAccelerometerNotFound
  | ErrorEmitterNotFound
  | ControllerInitialized
  | SurvivorDetectedBySensor nat
  | AidDeploymentFinished
  | ChangeRobotTilted
  | ChangeSurvivorDetected
  | EmitterSent string
  | EmitterCannotSend
  | ChangeObstacleDetected
  | ChangeClear
  | AvoidingTurningRight real real
  | AvoidingTurningLeft real real
  | DebugLine RobotState int real real real bool bool real real

text \<open>
  \<open>EmitterSend\<close> carries the string and the number of bytes sent, which counts the
  terminating zero. \<open>wb_robot_init\<close> and \<open>wb_robot_cleanup\<close> are not recorded.
\<close>

datatype event =
    Print log_line
  | MotorSetPositionInfinity side
  | MotorSetVelocity side real
  | DistanceSensorEnable nat int
  | RecognitionEnable nat int
  | AccelerometerEnable int
  | EmitterSetChannel int
  | EmitterSend string nat
  | LedSet side int

subsection \<open>is\_survivor\<close>

definition is_survivor :: "WbNodeRef \<Rightarrow> bool" where
  "is_survivor node =
     (if node = NullRef then False
      else case wb_supervisor_node_get_name node of
             None \<Rightarrow> False
           | Some node_name \<Rightarrow> if node_name = SURVIVOR_OBJECT_NAME then True else False)"

subsection \<open>main: device setup\<close>

fun enable_distance_sensors :: "nat \<Rightarrow> bool list \<Rightarrow> event list" where
  "enable_distance_sensors i [] = []"
| "enable_distance_sensors i (tag # tags) =
     (if tag then [DistanceSensorEnable i TIME_STEP, RecognitionEnable i TIME_STEP]
      else [Print (WarnDistanceSensorNotFound i)])
     @ enable_distance_sensors (Suc i) tags"

definition distance_sensors :: "devices \<Rightarrow> bool list" where
  "distance_sensors d = [ds_front d, ds_left d, ds_right d]"

definition setup_devices :: "devices \<Rightarrow> event list" where
  "setup_devices d =
     [MotorSetPositionInfinity LeftSide, MotorSetPositionInfinity RightSide,
      MotorSetVelocity LeftSide 0.0, MotorSetVelocity RightSide 0.0]
     @ enable_distance_sensors 0 (distance_sensors d)
     @ (if accelerometer d then [AccelerometerEnable TIME_STEP]
        else [Print WarnAccelerometerNotFound])
     @ (if \<not> emitter d then [Print ErrorEmitterNotFound]
        else [EmitterSetChannel EMITTER_CHANNEL])
     @ [Print ControllerInitialized]"

subsection \<open>main: 1. read sensor values and check for survivors\<close>

text \<open>
  The inner loop over the recognized objects of one sensor whose value is \<open>v\<close>:
  \<open>True\<close> when it leaves through \<open>break\<close>.
\<close>

fun scan_objects :: "real \<Rightarrow> WbNodeRef list \<Rightarrow> bool" where
  "scan_objects v [] = False"
| "scan_objects v (recognized_node # objects) =
     (if is_survivor recognized_node \<and> v < SURVIVOR_DETECTION_RANGE then True
      else scan_objects v objects)"

text \<open>
  The outer loop from sensor \<open>i\<close> on, over (tag, input) pairs. It returns the entries
  of \<open>ds_values\<close> from \<open>i\<close> on, \<open>survivor_detected_this_step\<close> and the events. When the
  loop is left early the later entries keep their initial value.
\<close>

fun scan_sensors :: "nat \<Rightarrow> (bool \<times> ds_input) list \<Rightarrow> real list \<times> bool \<times> event list" where
  "scan_sensors i [] = ([], False, [])"
| "scan_sensors i ((tag, inp) # rest) =
     (if tag then
        (if scan_objects (ds_value inp) (ds_objects inp)
         then (ds_value inp # map (\<lambda>_. DS_SENTINEL) rest, True,
               [Print (SurvivorDetectedBySensor i)])
         else (case scan_sensors (Suc i) rest of
                 (vs, found, evs) \<Rightarrow> (ds_value inp # vs, found, evs)))
      else (case scan_sensors (Suc i) rest of
              (vs, found, evs) \<Rightarrow> (DS_SENTINEL # vs, found, evs)))"

definition read_sensors :: "devices \<Rightarrow> tick_input \<Rightarrow> real list \<times> bool \<times> event list" where
  "read_sensors d x =
     scan_sensors 0 (zip (distance_sensors d) [front_in x, left_in x, right_in x])"

definition ds_values :: "devices \<Rightarrow> tick_input \<Rightarrow> real list" where
  "ds_values d x = fst (read_sensors d x)"

definition survivor_detected_this_step :: "devices \<Rightarrow> tick_input \<Rightarrow> bool" where
  "survivor_detected_this_step d x = fst (snd (read_sensors d x))"

definition tilted :: "devices \<Rightarrow> tick_input \<Rightarrow> bool" where
  "tilted d x =
     (if accelerometer d then
        (case accel_values x of
           (a0, a1, a2) \<Rightarrow>
             if \<bar>a0\<bar> > TILT_THRESHOLD \<or> \<bar>a1\<bar> > TILT_THRESHOLD then True else False)
      else False)"

subsection \<open>main: 2. determine robot state\<close>

definition print_if :: "bool \<Rightarrow> log_line \<Rightarrow> event list" where
  "print_if b l = (if b then [Print l] else [])"

text \<open>
  The timer block: from the current state and counter to \<open>next_state\<close>, the counter,
  \<open>actively_deploying_aid\<close> and the events.
\<close>

definition timer_logic :: "RobotState \<Rightarrow> int \<Rightarrow> RobotState \<times> int \<times> bool \<times> event list" where
  "timer_logic cur c =
     (if c > 0 then
        (if c - 1 = 0 then (cur, c - 1, False, [Print AidDeploymentFinished])
         else (DEPLOYING_AID, c - 1, True, []))
      else (cur, c, False, []))"

text \<open>
  The event triggers, entered only when \<open>actively_deploying_aid\<close> is false;
  \<open>next_state\<close> then still holds \<open>current_state\<close>.
\<close>

definition event_triggers ::
  "bool \<Rightarrow> RobotState \<Rightarrow> int \<Rightarrow> bool \<Rightarrow> bool \<Rightarrow> real \<Rightarrow> RobotState \<times> int \<times> event list" where
  "event_triggers emitter_tag cur c tilt survivor front =
     (if tilt then (ROBOT_TILTED, c, print_if (cur \<noteq> ROBOT_TILTED) ChangeRobotTilted)
      else if survivor then
        (if cur \<noteq> DEPLOYING_AID then
           (DEPLOYING_AID, AID_DEPLOY_DURATION,
            [Print ChangeSurvivorDetected]
            @ (if emitter_tag
               then [EmitterSend SURVIVOR_MESSAGE (length SURVIVOR_MESSAGE + 1),
                     Print (EmitterSent SURVIVOR_MESSAGE)]
               else [Print EmitterCannotSend]))
         else (cur, c, []))
      else if front < OBSTACLE_DISTANCE_THRESHOLD then
        (AVOIDING_OBSTACLE, c, print_if (cur \<noteq> AVOIDING_OBSTACLE) ChangeObstacleDetected)
      else (SEARCHING, c, print_if (cur \<noteq> SEARCHING) ChangeClear))"

definition determine_state ::
  "bool \<Rightarrow> RobotState \<Rightarrow> int \<Rightarrow> bool \<Rightarrow> bool \<Rightarrow> real \<Rightarrow> RobotState \<times> int \<times> event list" where
  "determine_state emitter_tag cur c tilt survivor front =
     (case timer_logic cur c of
        (next_state, c1, actively_deploying_aid, evs) \<Rightarrow>
          if \<not> actively_deploying_aid then
            (case event_triggers emitter_tag cur c1 tilt survivor front of
               (next_state', c2, evs') \<Rightarrow> (next_state', c2, evs @ evs'))
          else (next_state, c1, evs))"

subsection \<open>main: 3. execute actions based on state\<close>

definition led_set :: "devices \<Rightarrow> int \<Rightarrow> event list" where
  "led_set d v =
     (if left_led d then [LedSet LeftSide v] else [])
     @ (if right_led d then [LedSet RightSide v] else [])"

text \<open>From the new state, the counter and \<open>ds_values\<close> to the two speeds and the events.\<close>

definition execute_actions ::
  "devices \<Rightarrow> RobotState \<Rightarrow> int \<Rightarrow> real list \<Rightarrow> real \<times> real \<times> event list" where
  "execute_actions d st c ds =
     (case st of
        ROBOT_TILTED \<Rightarrow> (0.0, 0.0, led_set d 0 @ led_set d 1)
      | DEPLOYING_AID \<Rightarrow>
          (0.0, 0.0, led_set d 0 @ (if c smod 4 < 2 then led_set d 1 else []))
      | AVOIDING_OBSTACLE \<Rightarrow>
          (if ds ! 1 < ds ! 2
           then (TURN_SPEED, - TURN_SPEED,
                 led_set d 0 @ [Print (AvoidingTurningRight (ds ! 1) (ds ! 2))])
           else (- TURN_SPEED, TURN_SPEED,
                 led_set d 0 @ [Print (AvoidingTurningLeft (ds ! 2) (ds ! 1))]))
      | SEARCHING \<Rightarrow> (FORWARD_SPEED, FORWARD_SPEED, led_set d 0))"

subsection \<open>main: one iteration of the control loop, and the loop\<close>

definition tick :: "devices \<Rightarrow> tick_input \<Rightarrow> ctrl \<Rightarrow> ctrl \<times> event list" where
  "tick d x s =
     (case read_sensors d x of
        (ds, survivor, ev1) \<Rightarrow>
          (case determine_state (emitter d) (current_state s) (aid_deploy_counter s)
                  (tilted d x) survivor (ds ! 0) of
             (st, c, ev2) \<Rightarrow>
               (case execute_actions d st c ds of
                  (left_speed, right_speed, ev3) \<Rightarrow>
                    (\<lparr>current_state = st, aid_deploy_counter = c,
                      debug_print_counter = debug_print_counter s + 1\<rparr>,
                     ev1 @ ev2 @ ev3
                     @ [MotorSetVelocity LeftSide left_speed,
                        MotorSetVelocity RightSide right_speed]
                     @ print_if (debug_print_counter s smod 8 = 0)
                         (DebugLine st c (ds ! 0) (ds ! 1) (ds ! 2) (tilted d x) survivor
                            left_speed right_speed)))))"

fun control_loop :: "devices \<Rightarrow> ctrl \<Rightarrow> tick_input list \<Rightarrow> ctrl \<times> event list" where
  "control_loop d s [] = (s, [])"
| "control_loop d s (x # xs) =
     (case tick d x s of
        (s', evs) \<Rightarrow> (case control_loop d s' xs of (s'', evs') \<Rightarrow> (s'', evs @ evs')))"

definition initial_ctrl :: ctrl where
  "initial_ctrl = \<lparr>current_state = SEARCHING, aid_deploy_counter = 0, debug_print_counter = 0\<rparr>"

text \<open>
  \<open>main\<close> on the devices found and the steps granted: the exit status, the variables at
  exit and the events. Without both wheel motors it returns 1 at once.
\<close>

definition main :: "devices \<Rightarrow> tick_input list \<Rightarrow> int \<times> ctrl \<times> event list" where
  "main d steps =
     (if \<not> left_motor d \<or> \<not> right_motor d then (1, initial_ctrl, [])
      else (case control_loop d initial_ctrl steps of
              (s, evs) \<Rightarrow> (0, s, setup_devices d @ evs)))"

subsection \<open>Observations on event lists\<close>

fun is_send :: "event \<Rightarrow> bool" where
  "is_send (EmitterSend m n) = True"
| "is_send _ = False"

definition sends :: "event list \<Rightarrow> nat" where
  "sends evs = length (filter is_send evs)"

text \<open>The value an LED shows after the events: that of the last \<open>wb_led_set\<close> on it.\<close>

fun led_after :: "side \<Rightarrow> event list \<Rightarrow> int option \<Rightarrow> int option" where
  "led_after sd [] v = v"
| "led_after sd (LedSet sd' v' # evs) v = led_after sd evs (if sd' = sd then Some v' else v)"
| "led_after sd (_ # evs) v = led_after sd evs v"

text \<open>The velocity commands among the events, in order.\<close>

fun motor_cmds :: "event list \<Rightarrow> (side \<times> real) list" where
  "motor_cmds [] = []"
| "motor_cmds (MotorSetVelocity sd v # evs) = (sd, v) # motor_cmds evs"
| "motor_cmds (_ # evs) = motor_cmds evs"

text \<open>A velocity command that stops its wheel.\<close>

fun stopped :: "side \<times> real \<Rightarrow> bool" where
  "stopped (sd, v) = (v = 0)"

text \<open>How often the survivor branch was taken: it prints its state change each time.\<close>

definition arms :: "event list \<Rightarrow> nat" where
  "arms evs = length (filter ((=) (Print ChangeSurvivorDetected)) evs)"

fun is_print :: "event \<Rightarrow> bool" where
  "is_print (Print l) = True"
| "is_print _ = False"

text \<open>Whether the LED of a side was found.\<close>

fun led_present :: "devices \<Rightarrow> side \<Rightarrow> bool" where
  "led_present d LeftSide = left_led d"
| "led_present d RightSide = right_led d"

text \<open>The events without the commands to one LED, and the devices without that LED.\<close>

fun led_event :: "side \<Rightarrow> event \<Rightarrow> bool" where
  "led_event sd (LedSet sd' v) = (sd' = sd)"
| "led_event sd _ = False"

definition without_led :: "side \<Rightarrow> event list \<Rightarrow> event list" where
  "without_led sd evs = filter (\<lambda>e. \<not> led_event sd e) evs"

fun remove_led :: "side \<Rightarrow> devices \<Rightarrow> devices" where
  "remove_led LeftSide d = d\<lparr>left_led := False\<rparr>"
| "remove_led RightSide d = d\<lparr>right_led := False\<rparr>"

text \<open>
  The detection condition in the words of the specification: a sensor detects a survivor
  when one of its recognized objects is classified as a survivor and its reading is
  strictly below the detection range.
\<close>

definition spec_sensor_detects :: "ds_input \<Rightarrow> bool" where
  "spec_sensor_detects inp =
     (list_ex is_survivor (ds_objects inp) \<and> ds_value inp < SURVIVOR_DETECTION_RANGE)"

subsection \<open>Concrete devices and inputs\<close>

definition all_devices :: devices where
  "all_devices =
     \<lparr>left_motor = True, right_motor = True, ds_front = True, ds_left = True,
      ds_right = True, accelerometer = True, emitter = True, left_led = True,
      right_led = True\<rparr>"

definition nothing_at :: "real \<Rightarrow> ds_input" where
  "nothing_at v = \<lparr>ds_value = v, ds_objects = []\<rparr>"

definition survivor_at :: "real \<Rightarrow> ds_input" where
  "survivor_at v = \<lparr>ds_value = v, ds_objects = [NodeRef (Some ''SurvivorObstacle'')]\<rparr>"

definition level :: "real \<times> real \<times> real" where
  "level = (0.0, 0.0, 9.81)"

text \<open>All three readings 0.5, nothing recognized, no tilt.\<close>

definition clear_input :: tick_input where
  "clear_input =
     \<lparr>front_in = nothing_at 0.5, left_in = nothing_at 0.5, right_in = nothing_at 0.5,
      accel_values = level\<rparr>"

text \<open>A survivor recognized by the left sensor at distance 0.2.\<close>

definition survivor_input :: tick_input where
  "survivor_input =
     \<lparr>front_in = nothing_at 0.5, left_in = survivor_at 0.2, right_in = nothing_at 0.5,
      accel_values = level\<rparr>"

text \<open>An obstacle 0.1 ahead, with the given left and right readings.\<close>

definition obstacle_input :: "real \<Rightarrow> real \<Rightarrow> tick_input" where
  "obstacle_input l r =
     \<lparr>front_in = nothing_at 0.1, left_in = nothing_at l, right_in = nothing_at r,
      accel_values = level\<rparr>"

text \<open>A survivor in range on the left while the first axis reads 4.0.\<close>

definition tilted_survivor_input :: tick_input where
  "tilted_survivor_input =
     \<lparr>front_in = nothing_at 0.5, left_in = survivor_at 0.2, right_in = nothing_at 0.5,
      accel_values = (4.0, 0.0, 9.81)\<rparr>"

text \<open>In \<open>DEPLOYING_AID\<close> with the counter run out.\<close>

definition deploying_idle :: ctrl where
  "deploying_idle =
     \<lparr>current_state = DEPLOYING_AID, aid_deploy_counter = 0, debug_print_counter = 0\<rparr>"

text \<open>In \<open>DEPLOYING_AID\<close> with the counter at its full duration, as left by the arming step.\<close>

definition just_armed :: ctrl where
  "just_armed =
     \<lparr>current_state = DEPLOYING_AID, aid_deploy_counter = 50, debug_print_counter = 1\<rparr>"

text \<open>Runs of equal steps.\<close>

definition clear_steps :: "nat \<Rightarrow> tick_input list" where
  "clear_steps n = replicate n clear_input"

definition survivor_steps :: "nat \<Rightarrow> tick_input list" where
  "survivor_steps n = replicate n survivor_input"

text \<open>Devices with some of them not found.\<close>

definition no_led_devices :: devices where
  "no_led_devices = all_devices\<lparr>left_led := False, right_led := False\<rparr>"

definition no_emitter_devices :: devices where
  "no_emitter_devices = all_devices\<lparr>emitter := False\<rparr>"

definition no_motor_devices :: devices where
  "no_motor_devices = all_devices\<lparr>left_motor := False\<rparr>"

definition no_sensor_devices :: devices where
  "no_sensor_devices =
     all_devices\<lparr>ds_front := False, ds_left := False, ds_right := False,
       accelerometer := False\<rparr>"

section \<open>Auxiliary facts\<close>

lemma scan_objects_iff:
  "scan_objects v ns = ((\<exists>n \<in> set ns. is_survivor n) \<and> v < SURVIVOR_DETECTION_RANGE)"
  by (induction ns) auto

lemma read_sensors_eq:
  "read_sensors d x =
     (if ds_front d \<and> scan_objects (ds_value (front_in x)) (ds_objects (front_in x))
      then ([ds_value (front_in x), DS_SENTINEL, DS_SENTINEL], True,
            [Print (SurvivorDetectedBySensor 0)])
      else if ds_left d \<and> scan_objects (ds_value (left_in x)) (ds_objects (left_in x))
      then ([if ds_front d then ds_value (front_in x) else DS_SENTINEL,
             ds_value (left_in x), DS_SENTINEL], True,
            [Print (SurvivorDetectedBySensor 1)])
      else if ds_right d \<and> scan_objects (ds_value (right_in x)) (ds_objects (right_in x))
      then ([if ds_front d then ds_value (front_in x) else DS_SENTINEL,
             if ds_left d then ds_value (left_in x) else DS_SENTINEL,
             ds_value (right_in x)], True,
            [Print (SurvivorDetectedBySensor 2)])
      else ([if ds_front d then ds_value (front_in x) else DS_SENTINEL,
             if ds_left d then ds_value (left_in x) else DS_SENTINEL,
             if ds_right d then ds_value (right_in x) else DS_SENTINEL], False, []))"
  by (simp add: read_sensors_def distance_sensors_def)

lemma ds_values_front:
  "ds_values d x ! 0 = (if ds_front d then ds_value (front_in x) else DS_SENTINEL)"
  by (simp add: ds_values_def read_sensors_eq)

lemma length_ds_values: "length (ds_values d x) = 3"
  by (simp add: ds_values_def read_sensors_eq)

lemma sends_append: "sends (xs @ ys) = sends xs + sends ys"
  by (simp add: sends_def)

lemma sends_Nil: "sends [] = 0"
  by (simp add: sends_def)

lemma sends_Cons: "sends (e # evs) = (if is_send e then 1 else 0) + sends evs"
  by (simp add: sends_def)

lemma sends_print_if: "sends (print_if b l) = 0"
  by (simp add: sends_def print_if_def)

lemma sends_led_set: "sends (led_set d v) = 0"
  by (simp add: sends_def led_set_def)

lemma sends_read_sensors: "sends (snd (snd (read_sensors d x))) = 0"
  by (simp add: read_sensors_eq sends_Cons sends_Nil)

lemma sends_execute_actions: "sends (snd (snd (execute_actions d st c ds))) = 0"
  by (cases st) (simp_all add: execute_actions_def sends_append sends_led_set sends_Cons sends_Nil)

lemma determine_state_eq:
  "determine_state e cur c tilt sv front =
     (if 0 < c \<and> c - 1 \<noteq> 0 then (DEPLOYING_AID, c - 1, [])
      else case event_triggers e cur (if 0 < c then c - 1 else c) tilt sv front of
             (st, c', evs) \<Rightarrow> (st, c', print_if (0 < c) AidDeploymentFinished @ evs))"
  by (simp add: determine_state_def timer_logic_def print_if_def split: prod.splits)

lemma tick_state:
  "current_state (fst (tick d x s)) =
     fst (determine_state (emitter d) (current_state s) (aid_deploy_counter s)
            (tilted d x) (survivor_detected_this_step d x) (ds_values d x ! 0))"
  by (simp add: tick_def ds_values_def survivor_detected_this_step_def split: prod.splits)

lemma tick_counter:
  "aid_deploy_counter (fst (tick d x s)) =
     fst (snd (determine_state (emitter d) (current_state s) (aid_deploy_counter s)
            (tilted d x) (survivor_detected_this_step d x) (ds_values d x ! 0)))"
  by (simp add: tick_def ds_values_def survivor_detected_this_step_def split: prod.splits)

lemma tick_events:
  "snd (tick d x s) =
     snd (snd (read_sensors d x))
     @ snd (snd (determine_state (emitter d) (current_state s) (aid_deploy_counter s)
            (tilted d x) (survivor_detected_this_step d x) (ds_values d x ! 0)))
     @ snd (snd (execute_actions d (current_state (fst (tick d x s)))
            (aid_deploy_counter (fst (tick d x s))) (ds_values d x)))
     @ [MotorSetVelocity LeftSide
          (fst (execute_actions d (current_state (fst (tick d x s)))
            (aid_deploy_counter (fst (tick d x s))) (ds_values d x))),
        MotorSetVelocity RightSide
          (fst (snd (execute_actions d (current_state (fst (tick d x s)))
            (aid_deploy_counter (fst (tick d x s))) (ds_values d x))))]
     @ print_if (debug_print_counter s smod 8 = 0)
         (DebugLine (current_state (fst (tick d x s))) (aid_deploy_counter (fst (tick d x s)))
            (ds_values d x ! 0) (ds_values d x ! 1) (ds_values d x ! 2) (tilted d x)
            (survivor_detected_this_step d x)
            (fst (execute_actions d (current_state (fst (tick d x s)))
               (aid_deploy_counter (fst (tick d x s))) (ds_values d x)))
            (fst (snd (execute_actions d (current_state (fst (tick d x s)))
               (aid_deploy_counter (fst (tick d x s))) (ds_values d x)))))"
  by (simp add: tick_def ds_values_def survivor_detected_this_step_def split: prod.splits)

lemma tick_sends:
  "sends (snd (tick d x s)) =
     sends (snd (snd (determine_state (emitter d) (current_state s) (aid_deploy_counter s)
            (tilted d x) (survivor_detected_this_step d x) (ds_values d x ! 0))))"
  by (simp add: tick_events sends_append sends_read_sensors sends_execute_actions
      sends_print_if sends_Cons sends_Nil)

lemma arms_append: "arms (xs @ ys) = arms xs + arms ys"
  by (simp add: arms_def)

lemma arms_Nil: "arms [] = 0"
  by (simp add: arms_def)

lemma arms_Cons: "arms (e # evs) = (if e = Print ChangeSurvivorDetected then 1 else 0) + arms evs"
  by (auto simp: arms_def)

lemma arms_print_if: "l \<noteq> ChangeSurvivorDetected \<Longrightarrow> arms (print_if b l) = 0"
  by (simp add: arms_def print_if_def)

lemma arms_led_set: "arms (led_set d v) = 0"
  by (simp add: arms_def led_set_def)

lemma arms_read_sensors: "arms (snd (snd (read_sensors d x))) = 0"
  by (simp add: read_sensors_eq arms_Cons arms_Nil)

lemma arms_execute_actions: "arms (snd (snd (execute_actions d st c ds))) = 0"
  by (cases st) (simp_all add: execute_actions_def arms_append arms_led_set arms_Cons arms_Nil)

lemma determine_state_next:
  "fst (determine_state e cur c tilt sv front) =
     (if 0 < c \<and> c - 1 \<noteq> 0 then DEPLOYING_AID
      else if tilt then ROBOT_TILTED
      else if sv then DEPLOYING_AID
      else if front < OBSTACLE_DISTANCE_THRESHOLD then AVOIDING_OBSTACLE
      else SEARCHING)"
  by (simp add: determine_state_eq event_triggers_def)

lemma determine_state_counter:
  "fst (snd (determine_state e cur c tilt sv front)) =
     (if 0 < c \<and> c - 1 \<noteq> 0 then c - 1
      else if \<not> tilt \<and> sv \<and> cur \<noteq> DEPLOYING_AID then AID_DEPLOY_DURATION
      else if 0 < c then c - 1
      else c)"
  by (simp add: determine_state_eq event_triggers_def)

lemma determine_state_sends:
  "sends (snd (snd (determine_state e cur c tilt sv front))) =
     (if \<not> (0 < c \<and> c - 1 \<noteq> 0) \<and> \<not> tilt \<and> sv \<and> cur \<noteq> DEPLOYING_AID \<and> e then 1 else 0)"
  by (simp add: determine_state_eq event_triggers_def sends_append sends_print_if
      sends_Cons sends_Nil)

lemma determine_state_arms:
  "arms (snd (snd (determine_state e cur c tilt sv front))) =
     (if \<not> (0 < c \<and> c - 1 \<noteq> 0) \<and> \<not> tilt \<and> sv \<and> cur \<noteq> DEPLOYING_AID then 1 else 0)"
  by (simp add: determine_state_eq event_triggers_def arms_append arms_print_if
      arms_Cons arms_Nil)

lemma tick_arms:
  "arms (snd (tick d x s)) =
     arms (snd (snd (determine_state (emitter d) (current_state s) (aid_deploy_counter s)
            (tilted d x) (survivor_detected_this_step d x) (ds_values d x ! 0))))"
  by (simp add: tick_events arms_append arms_read_sensors arms_execute_actions
      arms_print_if arms_Cons arms_Nil)

text \<open>The timer still forces the state: it is positive and stays non-zero when decremented.\<close>

lemma forced_iff: "(0 < c \<and> c - 1 \<noteq> 0) = (0 < c \<and> 0 < c - 1)" for c :: int
  by arith

lemma tick_next_state:
  "current_state (fst (tick d x s)) =
     (if 0 < aid_deploy_counter s \<and> 0 < aid_deploy_counter s - 1 then DEPLOYING_AID
      else if tilted d x then ROBOT_TILTED
      else if survivor_detected_this_step d x then DEPLOYING_AID
      else if ds_values d x ! 0 < OBSTACLE_DISTANCE_THRESHOLD then AVOIDING_OBSTACLE
      else SEARCHING)"
  by (simp only: tick_state determine_state_next forced_iff)

lemma tick_next_counter:
  "aid_deploy_counter (fst (tick d x s)) =
     (if 0 < aid_deploy_counter s \<and> 0 < aid_deploy_counter s - 1 then aid_deploy_counter s - 1
      else if \<not> tilted d x \<and> survivor_detected_this_step d x
              \<and> current_state s \<noteq> DEPLOYING_AID
      then AID_DEPLOY_DURATION
      else if 0 < aid_deploy_counter s then aid_deploy_counter s - 1
      else aid_deploy_counter s)"
  by (simp only: tick_counter determine_state_counter forced_iff)

lemma tick_next_sends:
  "sends (snd (tick d x s)) =
     (if \<not> (0 < aid_deploy_counter s \<and> 0 < aid_deploy_counter s - 1)
         \<and> \<not> tilted d x \<and> survivor_detected_this_step d x
         \<and> current_state s \<noteq> DEPLOYING_AID \<and> emitter d
      then 1 else 0)"
  by (simp only: tick_sends determine_state_sends forced_iff)

lemma tick_next_arms:
  "arms (snd (tick d x s)) =
     (if \<not> (0 < aid_deploy_counter s \<and> 0 < aid_deploy_counter s - 1)
         \<and> \<not> tilted d x \<and> survivor_detected_this_step d x
         \<and> current_state s \<noteq> DEPLOYING_AID
      then 1 else 0)"
  by (simp only: tick_arms determine_state_arms forced_iff)

lemma control_loop_Cons_state:
  "fst (control_loop d s (x # xs)) = fst (control_loop d (fst (tick d x s)) xs)"
  by (simp split: prod.splits)

lemma control_loop_Cons_events:
  "snd (control_loop d s (x # xs)) =
     snd (tick d x s) @ snd (control_loop d (fst (tick d x s)) xs)"
  by (simp split: prod.splits)

lemma control_loop_Nil: "control_loop d s [] = (s, [])"
  by simp

text \<open>While the counter exceeds the number of steps ahead, every step is forced.\<close>

lemma forced_run:
  "int (length xs) < aid_deploy_counter s \<Longrightarrow> current_state s = DEPLOYING_AID \<Longrightarrow>
   current_state (fst (control_loop d s xs)) = DEPLOYING_AID
   \<and> aid_deploy_counter (fst (control_loop d s xs)) = aid_deploy_counter s - int (length xs)
   \<and> sends (snd (control_loop d s xs)) = 0
   \<and> arms (snd (control_loop d s xs)) = 0"
proof (induction xs arbitrary: s)
  case Nil
  then show ?case by (simp add: sends_Nil arms_Nil)
next
  case (Cons x xs)
  let ?s = "fst (tick d x s)"
  from Cons.prems have c: "0 < aid_deploy_counter s \<and> 0 < aid_deploy_counter s - 1"
    by simp
  have st: "current_state ?s = DEPLOYING_AID" using c by (simp add: tick_next_state)
  have cn: "aid_deploy_counter ?s = aid_deploy_counter s - 1"
    using c by (simp add: tick_next_counter)
  have sn: "sends (snd (tick d x s)) = 0" using c by (simp add: tick_next_sends)
  have an: "arms (snd (tick d x s)) = 0" using c by (simp add: tick_next_arms)
  have "int (length xs) < aid_deploy_counter ?s" using Cons.prems cn by simp
  from Cons.IH [OF this st] show ?case
    by (simp only: control_loop_Cons_state control_loop_Cons_events sends_append arms_append
        sn an cn) simp
qed

lemma tick_counter_range:
  "0 \<le> aid_deploy_counter s \<Longrightarrow> aid_deploy_counter s \<le> AID_DEPLOY_DURATION \<Longrightarrow>
   0 \<le> aid_deploy_counter (fst (tick d x s))
   \<and> aid_deploy_counter (fst (tick d x s)) \<le> AID_DEPLOY_DURATION"
  by (simp add: tick_next_counter AID_DEPLOY_DURATION_def)

lemma control_loop_counter_range:
  "0 \<le> aid_deploy_counter s \<Longrightarrow> aid_deploy_counter s \<le> AID_DEPLOY_DURATION \<Longrightarrow>
   0 \<le> aid_deploy_counter (fst (control_loop d s xs))
   \<and> aid_deploy_counter (fst (control_loop d s xs)) \<le> AID_DEPLOY_DURATION"
proof (induction xs arbitrary: s)
  case Nil
  then show ?case by simp
next
  case (Cons x xs)
  from tick_counter_range [OF Cons.prems, of d x] Cons.IH [of "fst (tick d x s)"]
  show ?case by (simp only: control_loop_Cons_state)
qed

lemmas fixture_defs = all_devices_def nothing_at_def survivor_at_def level_def clear_input_def
  survivor_input_def obstacle_input_def tilted_survivor_input_def

lemma motor_cmds_append: "motor_cmds (xs @ ys) = motor_cmds xs @ motor_cmds ys"
  by (induction xs rule: motor_cmds.induct) simp_all

lemma motor_cmds_print_if: "motor_cmds (print_if b l) = []"
  by (simp add: print_if_def)

lemma motor_cmds_led_set: "motor_cmds (led_set d v) = []"
  by (simp add: led_set_def)

lemma motor_cmds_read_sensors: "motor_cmds (snd (snd (read_sensors d x))) = []"
  by (simp add: read_sensors_eq)

lemma motor_cmds_determine_state:
  "motor_cmds (snd (snd (determine_state e cur c tilt sv front))) = []"
  by (simp add: determine_state_eq event_triggers_def motor_cmds_append motor_cmds_print_if)

lemma motor_cmds_execute_actions: "motor_cmds (snd (snd (execute_actions d st c ds))) = []"
  by (cases st) (simp_all add: execute_actions_def motor_cmds_append motor_cmds_led_set)

lemma execute_actions_speeds:
  "[(LeftSide, fst (execute_actions d st c ds)),
    (RightSide, fst (snd (execute_actions d st c ds)))] =
     (case st of
        ROBOT_TILTED \<Rightarrow> [(LeftSide, 0), (RightSide, 0)]
      | DEPLOYING_AID \<Rightarrow> [(LeftSide, 0), (RightSide, 0)]
      | AVOIDING_OBSTACLE \<Rightarrow>
          if ds ! 1 < ds ! 2 then [(LeftSide, TURN_SPEED), (RightSide, - TURN_SPEED)]
          else [(LeftSide, - TURN_SPEED), (RightSide, TURN_SPEED)]
      | SEARCHING \<Rightarrow> [(LeftSide, FORWARD_SPEED), (RightSide, FORWARD_SPEED)])"
  by (cases st) (simp_all add: execute_actions_def)

lemma tick_motor_cmds:
  "motor_cmds (snd (tick d x s)) =
     (case current_state (fst (tick d x s)) of
        ROBOT_TILTED \<Rightarrow> [(LeftSide, 0), (RightSide, 0)]
      | DEPLOYING_AID \<Rightarrow> [(LeftSide, 0), (RightSide, 0)]
      | AVOIDING_OBSTACLE \<Rightarrow>
          if ds_values d x ! 1 < ds_values d x ! 2
          then [(LeftSide, TURN_SPEED), (RightSide, - TURN_SPEED)]
          else [(LeftSide, - TURN_SPEED), (RightSide, TURN_SPEED)]
      | SEARCHING \<Rightarrow> [(LeftSide, FORWARD_SPEED), (RightSide, FORWARD_SPEED)])"
proof -
  have "motor_cmds (snd (tick d x s)) =
      [(LeftSide, fst (execute_actions d (current_state (fst (tick d x s)))
            (aid_deploy_counter (fst (tick d x s))) (ds_values d x))),
       (RightSide, fst (snd (execute_actions d (current_state (fst (tick d x s)))
            (aid_deploy_counter (fst (tick d x s))) (ds_values d x))))]"
    by (subst tick_events)
      (simp add: motor_cmds_append motor_cmds_read_sensors motor_cmds_determine_state
        motor_cmds_execute_actions motor_cmds_print_if)
  then show ?thesis by (simp only: execute_actions_speeds)
qed

lemma survivor_input_detected: "survivor_detected_this_step all_devices survivor_input"
  by (simp add: survivor_detected_this_step_def read_sensors_eq fixture_defs is_survivor_def
      SURVIVOR_OBJECT_NAME_def SURVIVOR_DETECTION_RANGE_def)

lemma survivor_input_level: "\<not> tilted all_devices survivor_input"
  by (simp add: tilted_def fixture_defs TILT_THRESHOLD_def)

lemma length_clear_steps: "length (clear_steps n) = n"
  by (simp add: clear_steps_def)

lemma length_survivor_steps: "length (survivor_steps n) = n"
  by (simp add: survivor_steps_def)

lemma survivor_steps_detected:
  "list_all (survivor_detected_this_step all_devices) (survivor_steps n)"
  by (simp add: survivor_steps_def list_all_iff survivor_input_detected)

lemma control_loop_append_state:
  "fst (control_loop d s (ys @ zs)) = fst (control_loop d (fst (control_loop d s ys)) zs)"
  by (induction ys arbitrary: s) (simp_all only: append_Nil append_Cons control_loop_Cons_state control_loop_Nil fst_conv)

lemma clear_input_quiet:
  "\<not> tilted all_devices clear_input \<and> \<not> survivor_detected_this_step all_devices clear_input"
  by (simp add: tilted_def survivor_detected_this_step_def read_sensors_eq fixture_defs
      TILT_THRESHOLD_def)

lemma scan_objects_spec:
  "scan_objects (ds_value inp) (ds_objects inp) = spec_sensor_detects inp"
  by (simp add: scan_objects_iff spec_sensor_detects_def list_ex_iff)

lemma led_after_append: "led_after sd (xs @ ys) v = led_after sd ys (led_after sd xs v)"
  by (induction sd xs v rule: led_after.induct) simp_all

lemma led_after_print_if: "led_after sd (print_if b l) v = v"
  by (simp add: print_if_def)

lemma led_after_read_sensors: "led_after sd (snd (snd (read_sensors d x))) v = v"
  by (simp add: read_sensors_eq)

lemma led_after_determine_state:
  "led_after sd (snd (snd (determine_state e cur c tilt sv front))) v = v"
  by (simp add: determine_state_eq event_triggers_def led_after_append led_after_print_if)

lemma led_after_led_set:
  "led_after sd (led_set d w) v = (if led_present d sd then Some w else v)"
  by (cases sd) (simp_all add: led_set_def)

lemma led_after_execute_actions:
  "led_after sd (snd (snd (execute_actions d st c ds))) v =
     (if led_present d sd
      then Some (case st of
                   ROBOT_TILTED \<Rightarrow> 1
                 | DEPLOYING_AID \<Rightarrow> if c smod 4 < 2 then 1 else 0
                 | AVOIDING_OBSTACLE \<Rightarrow> 0
                 | SEARCHING \<Rightarrow> 0)
      else v)"
  by (cases st) (simp_all add: execute_actions_def led_after_append led_after_led_set)

lemma tick_led_after:
  "led_after sd (snd (tick d x s)) v =
     (if led_present d sd
      then Some (case current_state (fst (tick d x s)) of
                   ROBOT_TILTED \<Rightarrow> 1
                 | DEPLOYING_AID \<Rightarrow>
                     if aid_deploy_counter (fst (tick d x s)) smod 4 < 2 then 1 else 0
                 | AVOIDING_OBSTACLE \<Rightarrow> 0
                 | SEARCHING \<Rightarrow> 0)
      else v)"
  by (subst tick_events)
    (simp add: led_after_append led_after_read_sensors led_after_determine_state
      led_after_execute_actions led_after_print_if)

lemma obstacle_input_tick:
  "current_state (fst (tick all_devices (obstacle_input l r) initial_ctrl)) = AVOIDING_OBSTACLE"
  by (simp add: tick_next_state ds_values_front tilted_def survivor_detected_this_step_def
      read_sensors_eq fixture_defs initial_ctrl_def TILT_THRESHOLD_def
      OBSTACLE_DISTANCE_THRESHOLD_def)

lemma obstacle_input_values:
  "ds_values all_devices (obstacle_input l r) = [0.1, l, r]"
  by (simp add: ds_values_def read_sensors_eq fixture_defs)

lemma tilted_survivor_input_tilted: "tilted all_devices tilted_survivor_input"
  by (simp add: tilted_def fixture_defs TILT_THRESHOLD_def)

lemma clear_input_front: "ds_values all_devices clear_input ! 0 = 0.5"
  by (simp add: ds_values_front fixture_defs)

lemma main_fatal:
  "\<not> left_motor d \<or> \<not> right_motor d \<Longrightarrow> main d steps = (1, initial_ctrl, [])"
  by (auto simp: main_def)

lemma main_runs:
  "left_motor d \<Longrightarrow> right_motor d \<Longrightarrow>
   main d steps = (0, fst (control_loop d initial_ctrl steps),
                   setup_devices d @ snd (control_loop d initial_ctrl steps))"
  by (simp add: main_def split: prod.splits)

lemma setup_prints:
  "filter is_print (setup_devices d) =
     print_if (\<not> ds_front d) (WarnDistanceSensorNotFound 0)
     @ print_if (\<not> ds_left d) (WarnDistanceSensorNotFound 1)
     @ print_if (\<not> ds_right d) (WarnDistanceSensorNotFound 2)
     @ print_if (\<not> accelerometer d) WarnAccelerometerNotFound
     @ print_if (\<not> emitter d) ErrorEmitterNotFound
     @ [Print ControllerInitialized]"
  by (simp add: setup_devices_def distance_sensors_def print_if_def)

lemma ds_values_missing:
  "(\<not> ds_front d \<longrightarrow> ds_values d x ! 0 = DS_SENTINEL)
   \<and> (\<not> ds_left d \<longrightarrow> ds_values d x ! 1 = DS_SENTINEL)
   \<and> (\<not> ds_right d \<longrightarrow> ds_values d x ! 2 = DS_SENTINEL)"
  by (simp add: ds_values_def read_sensors_eq)

lemma tilted_missing: "\<not> accelerometer d \<Longrightarrow> \<not> tilted d x"
  by (simp add: tilted_def)

lemma without_led_append:
  "without_led sd (xs @ ys) = without_led sd xs @ without_led sd ys"
  by (simp add: without_led_def)

lemma without_led_Nil: "without_led sd [] = []"
  by (simp add: without_led_def)

lemma without_led_Cons:
  "without_led sd (e # evs) =
     (if led_event sd e then without_led sd evs else e # without_led sd evs)"
  by (simp add: without_led_def)

lemma without_led_print_if: "without_led sd (print_if b l) = print_if b l"
  by (simp add: without_led_def print_if_def)

lemma without_led_read_sensors:
  "without_led sd (snd (snd (read_sensors d x))) = snd (snd (read_sensors d x))"
  by (simp add: without_led_def read_sensors_eq)

lemma without_led_determine_state:
  "without_led sd (snd (snd (determine_state e cur c tilt sv front)))
     = snd (snd (determine_state e cur c tilt sv front))"
  by (simp add: determine_state_eq event_triggers_def without_led_append without_led_print_if)
    (simp add: without_led_def)

lemma led_set_remove_led: "led_set (remove_led sd d) v = without_led sd (led_set d v)"
  by (cases sd) (simp_all add: led_set_def without_led_def)

lemma execute_actions_remove_led:
  "execute_actions (remove_led sd d) st c ds =
     (fst (execute_actions d st c ds), fst (snd (execute_actions d st c ds)),
      without_led sd (snd (snd (execute_actions d st c ds))))"
  by (cases st)
    (simp_all add: execute_actions_def led_set_remove_led without_led_append,
     simp_all add: without_led_def)

lemma remove_led_other:
  "read_sensors (remove_led sd d) x = read_sensors d x"
  "tilted (remove_led sd d) x = tilted d x"
  "emitter (remove_led sd d) = emitter d"
  "setup_devices (remove_led sd d) = setup_devices d"
  by (cases sd; simp add: read_sensors_def distance_sensors_def tilted_def setup_devices_def)+

lemma tick_remove_led:
  "tick (remove_led sd d) x s = (fst (tick d x s), without_led sd (snd (tick d x s)))"
proof -
  obtain ds sv ev1 where r: "read_sensors d x = (ds, sv, ev1)"
    by (cases "read_sensors d x") auto
  obtain st c ev2 where t: "determine_state (emitter d) (current_state s)
      (aid_deploy_counter s) (tilted d x) sv (ds ! 0) = (st, c, ev2)"
    by (cases "determine_state (emitter d) (current_state s)
      (aid_deploy_counter s) (tilted d x) sv (ds ! 0)") auto
  obtain l r' ev3 where a: "execute_actions d st c ds = (l, r', ev3)"
    by (cases "execute_actions d st c ds") auto
  have e1: "without_led sd ev1 = ev1" using without_led_read_sensors [of sd d x] r by simp
  have e2: "without_led sd ev2 = ev2"
    using without_led_determine_state [of sd "emitter d" "current_state s"
        "aid_deploy_counter s" "tilted d x" sv "ds ! 0"] t by simp
  show ?thesis
    by (simp add: tick_def remove_led_other r t a execute_actions_remove_led
        without_led_append without_led_Cons without_led_print_if e1 e2)
qed

lemma tick_cannot_send:
  "\<not> emitter d \<Longrightarrow> \<not> (0 < aid_deploy_counter s \<and> 0 < aid_deploy_counter s - 1) \<Longrightarrow>
   \<not> tilted d x \<Longrightarrow> survivor_detected_this_step d x \<Longrightarrow>
   current_state s \<noteq> DEPLOYING_AID \<Longrightarrow>
   filter ((=) (Print EmitterCannotSend)) (snd (tick d x s)) = [Print EmitterCannotSend]"
proof -
  assume h: "\<not> emitter d" "\<not> (0 < aid_deploy_counter s \<and> 0 < aid_deploy_counter s - 1)"
    "\<not> tilted d x" "survivor_detected_this_step d x" "current_state s \<noteq> DEPLOYING_AID"
  have c: "\<not> (0 < aid_deploy_counter s \<and> aid_deploy_counter s - 1 \<noteq> 0)"
    using h(2) by arith
  have "filter ((=) (Print EmitterCannotSend)) (snd (snd (read_sensors d x))) = []"
    by (simp add: read_sensors_eq)
  moreover have "filter ((=) (Print EmitterCannotSend))
      (snd (snd (execute_actions d st c' ds))) = []" for st c' ds
    by (cases st) (simp_all add: execute_actions_def led_set_def)
  moreover have "filter ((=) (Print EmitterCannotSend))
      (snd (snd (determine_state (emitter d) (current_state s) (aid_deploy_counter s)
            (tilted d x) (survivor_detected_this_step d x) (ds_values d x ! 0))))
      = [Print EmitterCannotSend]"
    using h c by (auto simp: determine_state_eq event_triggers_def print_if_def)
  ultimately show ?thesis
    by (subst tick_events) (simp add: print_if_def)
qed

lemma no_emitter_no_send: "\<not> emitter d \<Longrightarrow> sends (snd (control_loop d s xs)) = 0"
proof (induction xs arbitrary: s)
  case Nil
  then show ?case by (simp add: sends_Nil)
next
  case (Cons x xs)
  then show ?case
    by (simp only: control_loop_Cons_events sends_append tick_next_sends) simp
qed

lemma no_emitter_survivor_input:
  "\<not> tilted no_emitter_devices survivor_input
   \<and> survivor_detected_this_step no_emitter_devices survivor_input"
  by (simp add: tilted_def survivor_detected_this_step_def read_sensors_eq fixture_defs
      no_emitter_devices_def is_survivor_def SURVIVOR_OBJECT_NAME_def
      SURVIVOR_DETECTION_RANGE_def TILT_THRESHOLD_def)

section \<open>The survivor classifier\<close>

text \<open>
  C7. \<open>is_survivor\<close> returns true exactly when the reference is non-null and its name
  resolves to a string equal to "SurvivorObstacle" (which is non-empty); a null reference
  and a node whose name does not resolve give false. Equality is exact: a name that
  differs in case, or that only extends the label, is rejected.
\<close>

theorem is_survivor_iff:
  "is_survivor node = (node = NodeRef (Some ''SurvivorObstacle''))
   \<and> ''SurvivorObstacle'' \<noteq> ''''
   \<and> is_survivor NullRef = False
   \<and> is_survivor (NodeRef None) = False
   \<and> is_survivor (NodeRef (Some ''survivorobstacle'')) = False
   \<and> is_survivor (NodeRef (Some ''SurvivorObstacle2'')) = False
   \<and> is_survivor (NodeRef (Some ''Survivor'')) = False
   \<and> is_survivor (NodeRef (Some '''')) = False"
  by (cases node) (auto simp: is_survivor_def SURVIVOR_OBJECT_NAME_def split: option.splits)

section \<open>The state transition of one step\<close>

text \<open>
  C1. The transition of one step is the function \<open>tick\<close>: it has a value for every
  input and state, and the same value for the same arguments. Its next state, counter
  and send follow this precedence, each clause suppressing the later ones. Timer: a
  counter that is positive and still positive after its decrement forces
  \<open>DEPLOYING_AID\<close> and nothing else is looked at. Tilt: the next state is
  \<open>ROBOT_TILTED\<close> whatever the state was. Survivor detection: the next state is
  \<open>DEPLOYING_AID\<close>, and when the current state is not already \<open>DEPLOYING_AID\<close> the
  counter is set to the fixed duration and the message is sent (given an emitter).
  Obstacle: a front reading below the threshold gives \<open>AVOIDING_OBSTACLE\<close>. Otherwise
  \<open>SEARCHING\<close>. The front reading is the sensor's value, or the sentinel without the
  sensor. The next state is one of the four states, which are pairwise different.
\<close>

theorem tick_transition:
  "current_state (fst (tick d x s)) =
     (if 0 < aid_deploy_counter s \<and> 0 < aid_deploy_counter s - 1 then DEPLOYING_AID
      else if tilted d x then ROBOT_TILTED
      else if survivor_detected_this_step d x then DEPLOYING_AID
      else if ds_values d x ! 0 < OBSTACLE_DISTANCE_THRESHOLD then AVOIDING_OBSTACLE
      else SEARCHING)
   \<and> aid_deploy_counter (fst (tick d x s)) =
     (if 0 < aid_deploy_counter s \<and> 0 < aid_deploy_counter s - 1 then aid_deploy_counter s - 1
      else if \<not> tilted d x \<and> survivor_detected_this_step d x
              \<and> current_state s \<noteq> DEPLOYING_AID
      then AID_DEPLOY_DURATION
      else if 0 < aid_deploy_counter s then aid_deploy_counter s - 1
      else aid_deploy_counter s)
   \<and> arms (snd (tick d x s)) =
     (if \<not> (0 < aid_deploy_counter s \<and> 0 < aid_deploy_counter s - 1)
         \<and> \<not> tilted d x \<and> survivor_detected_this_step d x
         \<and> current_state s \<noteq> DEPLOYING_AID
      then 1 else 0)
   \<and> sends (snd (tick d x s)) =
     (if \<not> (0 < aid_deploy_counter s \<and> 0 < aid_deploy_counter s - 1)
         \<and> \<not> tilted d x \<and> survivor_detected_this_step d x
         \<and> current_state s \<noteq> DEPLOYING_AID \<and> emitter d
      then 1 else 0)
   \<and> ds_values d x ! 0 = (if ds_front d then ds_value (front_in x) else DS_SENTINEL)
   \<and> current_state (fst (tick d x s))
       \<in> {SEARCHING, AVOIDING_OBSTACLE, DEPLOYING_AID, ROBOT_TILTED}
   \<and> distinct [SEARCHING, AVOIDING_OBSTACLE, DEPLOYING_AID, ROBOT_TILTED]"
proof -
  have "current_state (fst (tick d x s)) \<in> {SEARCHING, AVOIDING_OBSTACLE, DEPLOYING_AID, ROBOT_TILTED}"
    by (cases "current_state (fst (tick d x s))") simp_all
  moreover have "distinct [SEARCHING, AVOIDING_OBSTACLE, DEPLOYING_AID, ROBOT_TILTED]"
    by simp
  ultimately show ?thesis
    using tick_next_state [of d x s] tick_next_counter [of d x s] tick_next_arms [of d x s]
      tick_next_sends [of d x s] ds_values_front [of d x]
    by blast
qed

text \<open>
  C4. A tilted robot goes to \<open>ROBOT_TILTED\<close> whatever its state and whatever else the
  sensors report (no arming of the timer, no send), unless the counter is positive and
  still non-zero after its decrement: then the next state is \<open>DEPLOYING_AID\<close> although
  the robot is tilted.
\<close>

theorem tilt_priority:
  "(tilted d x \<and> \<not> (0 < aid_deploy_counter s \<and> aid_deploy_counter s - 1 \<noteq> 0) \<longrightarrow>
      current_state (fst (tick d x s)) = ROBOT_TILTED
      \<and> arms (snd (tick d x s)) = 0 \<and> sends (snd (tick d x s)) = 0)
   \<and> (tilted d x \<and> 0 < aid_deploy_counter s \<and> aid_deploy_counter s - 1 \<noteq> 0 \<longrightarrow>
      current_state (fst (tick d x s)) = DEPLOYING_AID)"
  by (simp add: tick_next_state tick_next_arms tick_next_sends forced_iff)

theorem tilt_priority_witness:
  "(tilted all_devices tilted_survivor_input
    \<and> \<not> (0 < aid_deploy_counter initial_ctrl \<and> aid_deploy_counter initial_ctrl - 1 \<noteq> 0)
    \<and> current_state (fst (tick all_devices tilted_survivor_input initial_ctrl)) = ROBOT_TILTED)
   \<and> (tilted all_devices tilted_survivor_input
    \<and> 0 < aid_deploy_counter (initial_ctrl\<lparr>aid_deploy_counter := 7\<rparr>)
    \<and> aid_deploy_counter (initial_ctrl\<lparr>aid_deploy_counter := 7\<rparr>) - 1 \<noteq> 0
    \<and> current_state (fst (tick all_devices tilted_survivor_input
         (initial_ctrl\<lparr>aid_deploy_counter := 7\<rparr>))) = DEPLOYING_AID)"
proof -
  have t: "tilted all_devices tilted_survivor_input"
    by (simp add: tilted_def fixture_defs TILT_THRESHOLD_def)
  have a: "\<not> (0 < aid_deploy_counter initial_ctrl \<and> aid_deploy_counter initial_ctrl - 1 \<noteq> 0)"
    by (simp add: initial_ctrl_def)
  have b: "0 < aid_deploy_counter (initial_ctrl\<lparr>aid_deploy_counter := 7\<rparr>)
    \<and> aid_deploy_counter (initial_ctrl\<lparr>aid_deploy_counter := 7\<rparr>) - 1 \<noteq> 0"
    by simp
  show ?thesis
    using t a b tilt_priority [of all_devices tilted_survivor_input initial_ctrl]
      tilt_priority [of all_devices tilted_survivor_input "initial_ctrl\<lparr>aid_deploy_counter := 7\<rparr>"]
    by blast
qed

section \<open>Detection that outlasts the timer\<close>

text \<open>
  C10. On a step that starts with the counter at 0, in \<open>DEPLOYING_AID\<close>, not tilted and
  with a survivor detected, the next state is \<open>DEPLOYING_AID\<close> again, the counter stays
  0, the timer is not armed, nothing is sent and both wheels are commanded to 0. Hence
  over any number of such steps in a row the robot stays in \<open>DEPLOYING_AID\<close> with every
  velocity command 0, whatever the distance readings are: it never falls through to
  \<open>AVOIDING_OBSTACLE\<close> or \<open>SEARCHING\<close>.
\<close>

theorem deploying_persists:
  "(aid_deploy_counter s = 0 \<and> \<not> tilted d x \<and> survivor_detected_this_step d x
      \<and> current_state s = DEPLOYING_AID \<longrightarrow>
      current_state (fst (tick d x s)) = DEPLOYING_AID
      \<and> aid_deploy_counter (fst (tick d x s)) = 0
      \<and> arms (snd (tick d x s)) = 0
      \<and> sends (snd (tick d x s)) = 0
      \<and> motor_cmds (snd (tick d x s)) = [(LeftSide, 0), (RightSide, 0)])
   \<and> (aid_deploy_counter s = 0 \<and> current_state s = DEPLOYING_AID
      \<and> (\<forall>y \<in> set xs. \<not> tilted d y \<and> survivor_detected_this_step d y) \<longrightarrow>
      current_state (fst (control_loop d s xs)) = DEPLOYING_AID
      \<and> aid_deploy_counter (fst (control_loop d s xs)) = 0
      \<and> arms (snd (control_loop d s xs)) = 0
      \<and> sends (snd (control_loop d s xs)) = 0
      \<and> list_all stopped (motor_cmds (snd (control_loop d s xs))))"
proof -
  have step: "current_state (fst (tick d y t)) = DEPLOYING_AID
      \<and> aid_deploy_counter (fst (tick d y t)) = 0
      \<and> arms (snd (tick d y t)) = 0
      \<and> sends (snd (tick d y t)) = 0
      \<and> motor_cmds (snd (tick d y t)) = [(LeftSide, 0), (RightSide, 0)]"
    if "aid_deploy_counter t = 0" "\<not> tilted d y" "survivor_detected_this_step d y"
      "current_state t = DEPLOYING_AID" for y t
  proof -
    have st: "current_state (fst (tick d y t)) = DEPLOYING_AID"
      using that by (simp add: tick_next_state)
    moreover have "aid_deploy_counter (fst (tick d y t)) = 0"
      using that by (simp add: tick_next_counter)
    moreover have "arms (snd (tick d y t)) = 0"
      using that by (simp add: tick_next_arms)
    moreover have "sends (snd (tick d y t)) = 0"
      using that by (simp add: tick_next_sends)
    moreover have "motor_cmds (snd (tick d y t)) = [(LeftSide, 0), (RightSide, 0)]"
      by (simp add: tick_motor_cmds st)
    ultimately show ?thesis by blast
  qed
  have run: "current_state (fst (control_loop d t ys)) = DEPLOYING_AID
      \<and> aid_deploy_counter (fst (control_loop d t ys)) = 0
      \<and> arms (snd (control_loop d t ys)) = 0
      \<and> sends (snd (control_loop d t ys)) = 0
      \<and> list_all stopped (motor_cmds (snd (control_loop d t ys)))"
    if "aid_deploy_counter t = 0" "current_state t = DEPLOYING_AID"
      "\<forall>y \<in> set ys. \<not> tilted d y \<and> survivor_detected_this_step d y" for t ys
    using that
  proof (induction ys arbitrary: t)
    case Nil
    then show ?case by (simp add: arms_Nil sends_Nil)
  next
    case (Cons y ys)
    have s1: "current_state (fst (tick d y t)) = DEPLOYING_AID
      \<and> aid_deploy_counter (fst (tick d y t)) = 0
      \<and> arms (snd (tick d y t)) = 0
      \<and> sends (snd (tick d y t)) = 0
      \<and> motor_cmds (snd (tick d y t)) = [(LeftSide, 0), (RightSide, 0)]"
      using Cons.prems by (intro step) simp_all
    have "\<forall>z \<in> set ys. \<not> tilted d z \<and> survivor_detected_this_step d z"
      using Cons.prems by simp
    from Cons.IH [of "fst (tick d y t)", OF _ _ this] s1
    show ?case
      by (simp only: control_loop_Cons_state control_loop_Cons_events arms_append
          sends_append motor_cmds_append) simp
  qed
  show ?thesis using step [of s x] run [of s xs] by blast
qed

theorem deploying_persists_witness:
  "aid_deploy_counter deploying_idle = 0 \<and> \<not> tilted all_devices survivor_input
   \<and> survivor_detected_this_step all_devices survivor_input
   \<and> current_state deploying_idle = DEPLOYING_AID
   \<and> list_all (\<lambda>y. \<not> tilted all_devices y \<and> survivor_detected_this_step all_devices y)
       [survivor_input, survivor_input, survivor_input]
   \<and> current_state (fst (tick all_devices survivor_input deploying_idle)) = DEPLOYING_AID
   \<and> sends (snd (tick all_devices survivor_input deploying_idle)) = 0
   \<and> current_state (fst (control_loop all_devices deploying_idle
        [survivor_input, survivor_input, survivor_input])) = DEPLOYING_AID
   \<and> aid_deploy_counter (fst (control_loop all_devices deploying_idle
        [survivor_input, survivor_input, survivor_input])) = 0
   \<and> sends (snd (control_loop all_devices deploying_idle
        [survivor_input, survivor_input, survivor_input])) = 0"
proof -
  have h: "aid_deploy_counter deploying_idle = 0" "current_state deploying_idle = DEPLOYING_AID"
    by (simp_all add: deploying_idle_def)
  have a: "\<forall>y \<in> set [survivor_input, survivor_input, survivor_input].
      \<not> tilted all_devices y \<and> survivor_detected_this_step all_devices y"
    by (simp add: survivor_input_detected survivor_input_level)
  show ?thesis
    using h a survivor_input_detected survivor_input_level
      deploying_persists [of deploying_idle all_devices survivor_input
        "[survivor_input, survivor_input, survivor_input]"]
    by simp
qed

section \<open>The aid-deploy timer and the one-shot message\<close>

text \<open>
  C2. The message and the arming of the timer fire at most once per detection episode.
  On a step that starts in \<open>DEPLOYING_AID\<close>, or with a counter that is positive and
  still positive after its decrement, the timer is not armed and nothing is sent,
  whatever the sensors report (so also when a survivor is detected): the counter is only
  decremented if positive. And from a state other than \<open>DEPLOYING_AID\<close> with the
  counter at 0, a step that detects a survivor without tilt followed by up to 49 further
  steps (the timer stays armed; 9 further steps make the 10 steps of the specification)
  ends in \<open>DEPLOYING_AID\<close> with the timer armed exactly once and, given an emitter,
  exactly one send, none without one. The steps are arbitrary, so this holds of every
  prefix of the run: it is one contiguous run of \<open>DEPLOYING_AID\<close>.
\<close>

theorem one_send_per_episode:
  "(current_state s = DEPLOYING_AID
      \<or> (0 < aid_deploy_counter s \<and> 0 < aid_deploy_counter s - 1) \<longrightarrow>
      arms (snd (tick d x s)) = 0 \<and> sends (snd (tick d x s)) = 0
      \<and> aid_deploy_counter (fst (tick d x s)) =
          (if 0 < aid_deploy_counter s then aid_deploy_counter s - 1 else aid_deploy_counter s))
   \<and> (current_state s \<noteq> DEPLOYING_AID \<and> aid_deploy_counter s = 0
      \<and> \<not> tilted d x \<and> survivor_detected_this_step d x
      \<and> int (length xs) < AID_DEPLOY_DURATION \<longrightarrow>
      current_state (fst (control_loop d s (x # xs))) = DEPLOYING_AID
      \<and> aid_deploy_counter (fst (control_loop d s (x # xs)))
          = AID_DEPLOY_DURATION - int (length xs)
      \<and> arms (snd (control_loop d s (x # xs))) = 1
      \<and> sends (snd (control_loop d s (x # xs))) = (if emitter d then 1 else 0))"
proof -
  have one: "arms (snd (tick d x s)) = 0 \<and> sends (snd (tick d x s)) = 0
      \<and> aid_deploy_counter (fst (tick d x s)) =
          (if 0 < aid_deploy_counter s then aid_deploy_counter s - 1 else aid_deploy_counter s)"
    if "current_state s = DEPLOYING_AID
      \<or> (0 < aid_deploy_counter s \<and> 0 < aid_deploy_counter s - 1)"
    using that by (auto simp: tick_next_arms tick_next_sends tick_next_counter)
  have run: "current_state (fst (control_loop d s (x # xs))) = DEPLOYING_AID
      \<and> aid_deploy_counter (fst (control_loop d s (x # xs)))
          = AID_DEPLOY_DURATION - int (length xs)
      \<and> arms (snd (control_loop d s (x # xs))) = 1
      \<and> sends (snd (control_loop d s (x # xs))) = (if emitter d then 1 else 0)"
    if h: "current_state s \<noteq> DEPLOYING_AID" "aid_deploy_counter s = 0"
      "\<not> tilted d x" "survivor_detected_this_step d x"
      "int (length xs) < AID_DEPLOY_DURATION"
  proof -
    let ?s = "fst (tick d x s)"
    have st: "current_state ?s = DEPLOYING_AID" using h by (simp add: tick_next_state)
    have cn: "aid_deploy_counter ?s = AID_DEPLOY_DURATION"
      using h by (simp add: tick_next_counter)
    have an: "arms (snd (tick d x s)) = 1" using h by (simp add: tick_next_arms)
    have sn: "sends (snd (tick d x s)) = (if emitter d then 1 else 0)"
      using h by (simp add: tick_next_sends)
    have "int (length xs) < aid_deploy_counter ?s" using h cn by simp
    from forced_run [OF this st, of d] show ?thesis
      by (simp only: control_loop_Cons_state control_loop_Cons_events arms_append
          sends_append an sn cn) simp
  qed
  show ?thesis using one run by blast
qed

theorem one_send_per_episode_witness:
  "(current_state just_armed = DEPLOYING_AID
    \<and> sends (snd (tick all_devices survivor_input just_armed)) = 0
    \<and> aid_deploy_counter (fst (tick all_devices survivor_input just_armed)) = 49)
   \<and> (current_state initial_ctrl \<noteq> DEPLOYING_AID \<and> aid_deploy_counter initial_ctrl = 0
    \<and> \<not> tilted all_devices survivor_input
    \<and> survivor_detected_this_step all_devices survivor_input
    \<and> list_all (survivor_detected_this_step all_devices) (survivor_steps 9)
    \<and> int (length (survivor_steps 9)) < AID_DEPLOY_DURATION
    \<and> emitter all_devices
    \<and> current_state (fst (control_loop all_devices initial_ctrl
         (survivor_input # survivor_steps 9))) = DEPLOYING_AID
    \<and> aid_deploy_counter (fst (control_loop all_devices initial_ctrl
         (survivor_input # survivor_steps 9))) = 41
    \<and> arms (snd (control_loop all_devices initial_ctrl
         (survivor_input # survivor_steps 9))) = 1
    \<and> sends (snd (control_loop all_devices initial_ctrl
         (survivor_input # survivor_steps 9))) = 1)"
proof -
  have a: "current_state just_armed = DEPLOYING_AID" "aid_deploy_counter just_armed = 50"
    by (simp_all add: just_armed_def)
  have i: "current_state initial_ctrl \<noteq> DEPLOYING_AID" "aid_deploy_counter initial_ctrl = 0"
    by (simp_all add: initial_ctrl_def)
  have l: "int (length (survivor_steps 9)) < AID_DEPLOY_DURATION"
    by (simp add: AID_DEPLOY_DURATION_def length_survivor_steps)
  have e: "emitter all_devices" by (simp add: all_devices_def)
  have r: "list_all (survivor_detected_this_step all_devices) (survivor_steps 9)"
    by (rule survivor_steps_detected)
  show ?thesis
    using a i l e r survivor_input_detected survivor_input_level
      one_send_per_episode [of just_armed all_devices survivor_input]
      one_send_per_episode [of initial_ctrl all_devices survivor_input
        "survivor_steps 9"]
    by (simp add: AID_DEPLOY_DURATION_def length_survivor_steps)
qed

text \<open>
  C3. Along every run of the control loop from the initial state the counter stays
  between 0 and the duration 50. In one step it is set to 50 exactly when the survivor
  branch fires (not forced, not tilted, survivor detected, state not \<open>DEPLOYING_AID\<close>)
  and is otherwise decremented once if positive. While the decremented value is still
  positive the next state is \<open>DEPLOYING_AID\<close> and nothing is armed or sent, whatever
  the sensors report. From the armed state the counter after \<open>k < 50\<close> steps is
  \<open>50 - k\<close> and the state \<open>DEPLOYING_AID\<close>; the 50th step, on which the counter
  reaches 0, is not forced: without tilt and detection its state is
  \<open>AVOIDING_OBSTACLE\<close> or \<open>SEARCHING\<close> according to the front reading of that step.
\<close>

theorem aid_timer:
  "0 \<le> aid_deploy_counter (fst (control_loop d initial_ctrl xs))
   \<and> aid_deploy_counter (fst (control_loop d initial_ctrl xs)) \<le> AID_DEPLOY_DURATION
   \<and> AID_DEPLOY_DURATION = 50
   \<and> aid_deploy_counter (fst (tick d x s)) =
       (if 0 < aid_deploy_counter s \<and> 0 < aid_deploy_counter s - 1
        then aid_deploy_counter s - 1
        else if \<not> tilted d x \<and> survivor_detected_this_step d x
                \<and> current_state s \<noteq> DEPLOYING_AID
        then AID_DEPLOY_DURATION
        else if 0 < aid_deploy_counter s then aid_deploy_counter s - 1
        else aid_deploy_counter s)
   \<and> (0 < aid_deploy_counter s \<and> 0 < aid_deploy_counter s - 1 \<longrightarrow>
        current_state (fst (tick d x s)) = DEPLOYING_AID
        \<and> arms (snd (tick d x s)) = 0 \<and> sends (snd (tick d x s)) = 0)
   \<and> (current_state s = DEPLOYING_AID \<and> aid_deploy_counter s = AID_DEPLOY_DURATION
        \<and> int (length ys) < AID_DEPLOY_DURATION \<longrightarrow>
        current_state (fst (control_loop d s ys)) = DEPLOYING_AID
        \<and> aid_deploy_counter (fst (control_loop d s ys))
            = AID_DEPLOY_DURATION - int (length ys))
   \<and> (current_state s = DEPLOYING_AID \<and> aid_deploy_counter s = AID_DEPLOY_DURATION
        \<and> int (length ys) = AID_DEPLOY_DURATION - 1
        \<and> \<not> tilted d x \<and> \<not> survivor_detected_this_step d x \<longrightarrow>
        aid_deploy_counter (fst (control_loop d s (ys @ [x]))) = 0
        \<and> current_state (fst (control_loop d s (ys @ [x]))) =
            (if ds_values d x ! 0 < OBSTACLE_DISTANCE_THRESHOLD then AVOIDING_OBSTACLE
             else SEARCHING))"
proof -
  have inv: "0 \<le> aid_deploy_counter (fst (control_loop d initial_ctrl xs))
      \<and> aid_deploy_counter (fst (control_loop d initial_ctrl xs)) \<le> AID_DEPLOY_DURATION"
    by (rule control_loop_counter_range) (simp_all add: initial_ctrl_def AID_DEPLOY_DURATION_def)
  have forced: "current_state (fst (tick d x s)) = DEPLOYING_AID
        \<and> arms (snd (tick d x s)) = 0 \<and> sends (snd (tick d x s)) = 0"
    if "0 < aid_deploy_counter s \<and> 0 < aid_deploy_counter s - 1"
    using that by (simp add: tick_next_state tick_next_arms tick_next_sends)
  have count: "current_state (fst (control_loop d s ys)) = DEPLOYING_AID
        \<and> aid_deploy_counter (fst (control_loop d s ys))
            = AID_DEPLOY_DURATION - int (length ys)"
    if "current_state s = DEPLOYING_AID" "aid_deploy_counter s = AID_DEPLOY_DURATION"
      "int (length ys) < AID_DEPLOY_DURATION"
    using that forced_run [of ys s d] by simp
  have expiry: "aid_deploy_counter (fst (control_loop d s (ys @ [x]))) = 0
        \<and> current_state (fst (control_loop d s (ys @ [x]))) =
            (if ds_values d x ! 0 < OBSTACLE_DISTANCE_THRESHOLD then AVOIDING_OBSTACLE
             else SEARCHING)"
    if h: "current_state s = DEPLOYING_AID" "aid_deploy_counter s = AID_DEPLOY_DURATION"
      "int (length ys) = AID_DEPLOY_DURATION - 1"
      "\<not> tilted d x" "\<not> survivor_detected_this_step d x"
  proof -
    let ?t = "fst (control_loop d s ys)"
    have "int (length ys) < AID_DEPLOY_DURATION" using h by simp
    from count [OF h(1) h(2) this] h(3)
    have t: "current_state ?t = DEPLOYING_AID" "aid_deploy_counter ?t = 1"
      by simp_all
    have "fst (control_loop d s (ys @ [x])) = fst (tick d x ?t)"
      by (simp only: control_loop_append_state control_loop_Cons_state control_loop_Nil fst_conv)
    then show ?thesis using t h by (simp add: tick_next_state tick_next_counter)
  qed
  have dur: "AID_DEPLOY_DURATION = 50" by (simp add: AID_DEPLOY_DURATION_def)
  show ?thesis
    using inv dur forced count expiry tick_next_counter [of d x s]
    by blast
qed

theorem aid_timer_witness:
  "(0 < aid_deploy_counter just_armed \<and> 0 < aid_deploy_counter just_armed - 1
    \<and> current_state (fst (tick all_devices clear_input just_armed)) = DEPLOYING_AID)
   \<and> (current_state just_armed = DEPLOYING_AID
    \<and> aid_deploy_counter just_armed = AID_DEPLOY_DURATION
    \<and> int (length (clear_steps 49)) < AID_DEPLOY_DURATION
    \<and> int (length (clear_steps 49)) = AID_DEPLOY_DURATION - 1
    \<and> \<not> tilted all_devices clear_input
    \<and> \<not> survivor_detected_this_step all_devices clear_input
    \<and> current_state (fst (control_loop all_devices just_armed (clear_steps 49)))
        = DEPLOYING_AID
    \<and> aid_deploy_counter (fst (control_loop all_devices just_armed
        (clear_steps 49))) = 1
    \<and> aid_deploy_counter (fst (control_loop all_devices just_armed
        (clear_steps 49 @ [clear_input]))) = 0
    \<and> current_state (fst (control_loop all_devices just_armed
        (clear_steps 49 @ [clear_input]))) = SEARCHING)"
proof -
  have a: "current_state just_armed = DEPLOYING_AID" "aid_deploy_counter just_armed = 50"
    by (simp_all add: just_armed_def)
  have dur: "AID_DEPLOY_DURATION = 50" by (simp add: AID_DEPLOY_DURATION_def)
  have len: "int (length (clear_steps 49)) = 49" by (simp add: length_clear_steps)
  have h1: "0 < aid_deploy_counter just_armed \<and> 0 < aid_deploy_counter just_armed - 1"
    using a by simp
  have h2: "current_state just_armed = DEPLOYING_AID
      \<and> aid_deploy_counter just_armed = AID_DEPLOY_DURATION
      \<and> int (length (clear_steps 49)) < AID_DEPLOY_DURATION"
    using a dur len by simp
  have h3: "int (length (clear_steps 49)) = AID_DEPLOY_DURATION - 1"
    using dur len by simp
  have f: "\<not> ds_values all_devices clear_input ! 0 < OBSTACLE_DISTANCE_THRESHOLD"
    by (simp add: ds_values_front fixture_defs OBSTACLE_DISTANCE_THRESHOLD_def)
  note T = aid_timer [of all_devices "[]" clear_input just_armed "clear_steps 49"]
  from T h1 have c1: "current_state (fst (tick all_devices clear_input just_armed))
      = DEPLOYING_AID"
    by blast
  from T h2 have c2: "current_state (fst (control_loop all_devices just_armed
        (clear_steps 49))) = DEPLOYING_AID
      \<and> aid_deploy_counter (fst (control_loop all_devices just_armed (clear_steps 49)))
          = AID_DEPLOY_DURATION - int (length (clear_steps 49))"
    by blast
  from T h2 h3 clear_input_quiet
  have c3: "aid_deploy_counter (fst (control_loop all_devices just_armed
        (clear_steps 49 @ [clear_input]))) = 0
      \<and> current_state (fst (control_loop all_devices just_armed
        (clear_steps 49 @ [clear_input]))) =
          (if ds_values all_devices clear_input ! 0 < OBSTACLE_DISTANCE_THRESHOLD
           then AVOIDING_OBSTACLE else SEARCHING)"
    by blast
  from c2 have c2': "aid_deploy_counter (fst (control_loop all_devices just_armed
        (clear_steps 49))) = 1"
    by (simp only: len dur)
  from c3 f have c3': "current_state (fst (control_loop all_devices just_armed
        (clear_steps 49 @ [clear_input]))) = SEARCHING"
    by simp
  show ?thesis
    using h1 h2 h3 clear_input_quiet c1 c2 c2' c3 c3' by blast
qed

section \<open>The survivor scan\<close>

text \<open>
  C6. \<open>survivor_detected_this_step\<close> is true exactly when some distance sensor that was
  found has a recognized object classified as a survivor and a reading strictly below
  the detection range 0.4. The scan goes front, left, right and stops at the first
  sensor that detects: the log names that sensor, and the sensors after it are not read
  (their entries of \<open>ds_values\<close> keep the sentinel). A sensor that was not found is not
  read either and has the entry 999.0, a reading that never passes the range test; the
  scan has a result for every input.
\<close>

theorem survivor_scan:
  "survivor_detected_this_step d x =
     ((ds_front d \<and> spec_sensor_detects (front_in x))
      \<or> (ds_left d \<and> spec_sensor_detects (left_in x))
      \<or> (ds_right d \<and> spec_sensor_detects (right_in x)))
   \<and> read_sensors d x =
     (if ds_front d \<and> spec_sensor_detects (front_in x)
      then ([ds_value (front_in x), DS_SENTINEL, DS_SENTINEL], True,
            [Print (SurvivorDetectedBySensor 0)])
      else if ds_left d \<and> spec_sensor_detects (left_in x)
      then ([if ds_front d then ds_value (front_in x) else DS_SENTINEL,
             ds_value (left_in x), DS_SENTINEL], True,
            [Print (SurvivorDetectedBySensor 1)])
      else if ds_right d \<and> spec_sensor_detects (right_in x)
      then ([if ds_front d then ds_value (front_in x) else DS_SENTINEL,
             if ds_left d then ds_value (left_in x) else DS_SENTINEL,
             ds_value (right_in x)], True,
            [Print (SurvivorDetectedBySensor 2)])
      else ([if ds_front d then ds_value (front_in x) else DS_SENTINEL,
             if ds_left d then ds_value (left_in x) else DS_SENTINEL,
             if ds_right d then ds_value (right_in x) else DS_SENTINEL], False, []))
   \<and> spec_sensor_detects inp =
       ((\<exists>n. n \<in> set (ds_objects inp) \<and> is_survivor n) \<and> ds_value inp < 0.4)
   \<and> DS_SENTINEL = 999.0
   \<and> spec_sensor_detects (inp\<lparr>ds_value := DS_SENTINEL\<rparr>) = False"
proof -
  have r: "read_sensors d x =
     (if ds_front d \<and> spec_sensor_detects (front_in x)
      then ([ds_value (front_in x), DS_SENTINEL, DS_SENTINEL], True,
            [Print (SurvivorDetectedBySensor 0)])
      else if ds_left d \<and> spec_sensor_detects (left_in x)
      then ([if ds_front d then ds_value (front_in x) else DS_SENTINEL,
             ds_value (left_in x), DS_SENTINEL], True,
            [Print (SurvivorDetectedBySensor 1)])
      else if ds_right d \<and> spec_sensor_detects (right_in x)
      then ([if ds_front d then ds_value (front_in x) else DS_SENTINEL,
             if ds_left d then ds_value (left_in x) else DS_SENTINEL,
             ds_value (right_in x)], True,
            [Print (SurvivorDetectedBySensor 2)])
      else ([if ds_front d then ds_value (front_in x) else DS_SENTINEL,
             if ds_left d then ds_value (left_in x) else DS_SENTINEL,
             if ds_right d then ds_value (right_in x) else DS_SENTINEL], False, []))"
    by (simp only: read_sensors_eq scan_objects_spec)
  have s: "survivor_detected_this_step d x =
     ((ds_front d \<and> spec_sensor_detects (front_in x))
      \<or> (ds_left d \<and> spec_sensor_detects (left_in x))
      \<or> (ds_right d \<and> spec_sensor_detects (right_in x)))"
    unfolding survivor_detected_this_step_def r by simp
  have g: "spec_sensor_detects inp =
       ((\<exists>n. n \<in> set (ds_objects inp) \<and> is_survivor n) \<and> ds_value inp < 0.4)"
    by (auto simp: spec_sensor_detects_def list_ex_iff SURVIVOR_DETECTION_RANGE_def)
  have n: "DS_SENTINEL = 999.0" by (simp add: DS_SENTINEL_def)
  have u: "spec_sensor_detects (inp\<lparr>ds_value := DS_SENTINEL\<rparr>) = False"
    by (simp add: spec_sensor_detects_def DS_SENTINEL_def SURVIVOR_DETECTION_RANGE_def)
  show ?thesis using r s g n u by blast
qed

section \<open>The actuators\<close>

text \<open>
  C5 (the code at the tie). With an obstacle ahead, all devices present and the initial
  state, the step enters \<open>AVOIDING_OBSTACLE\<close> and commands \<open>(4, -4)\<close> (a right turn)
  exactly when the left reading is strictly below the right one, and \<open>(-4, 4)\<close> (a left
  turn) otherwise: left 0.2 and right 0.5 turn right, the reverse turns left, and equal
  readings 0.5 and 0.5 turn left.
\<close>

theorem avoiding_turn:
  "current_state (fst (tick all_devices (obstacle_input l r) initial_ctrl)) = AVOIDING_OBSTACLE
   \<and> motor_cmds (snd (tick all_devices (obstacle_input l r) initial_ctrl)) =
       (if l < r then [(LeftSide, 4), (RightSide, - 4)] else [(LeftSide, - 4), (RightSide, 4)])
   \<and> motor_cmds (snd (tick all_devices (obstacle_input 0.2 0.5) initial_ctrl)) =
       [(LeftSide, 4), (RightSide, - 4)]
   \<and> motor_cmds (snd (tick all_devices (obstacle_input 0.5 0.2) initial_ctrl)) =
       [(LeftSide, - 4), (RightSide, 4)]
   \<and> motor_cmds (snd (tick all_devices (obstacle_input 0.5 0.5) initial_ctrl)) =
       [(LeftSide, - 4), (RightSide, 4)]"
proof -
  have m: "motor_cmds (snd (tick all_devices (obstacle_input a b) initial_ctrl)) =
       (if a < b then [(LeftSide, 4), (RightSide, - 4)] else [(LeftSide, - 4), (RightSide, 4)])"
    for a b
    by (simp add: tick_motor_cmds obstacle_input_tick obstacle_input_values TURN_SPEED_def)
  show ?thesis
    using obstacle_input_tick [of l r] m [of l r] m [of "0.2" "0.5"] m [of "0.5" "0.2"]
      m [of "0.5" "0.5"]
    by simp
qed

text \<open>
  C8. When the state resolved by a step is \<open>ROBOT_TILTED\<close>, both wheels are commanded
  to 0 and each LED that was found is left on. When it is \<open>DEPLOYING_AID\<close>, both
  wheels are commanded to 0 and each LED that was found is left on exactly when the
  counter's remainder by 4 is below 2, and off otherwise; for a counter that is not
  negative this is the counter modulo 4 being 0 or 1, two values of every four. When it
  is \<open>SEARCHING\<close>, both wheels are commanded to the forward speed 5.
\<close>

theorem actuator_mapping:
  "(current_state (fst (tick d x s)) = ROBOT_TILTED \<longrightarrow>
      motor_cmds (snd (tick d x s)) = [(LeftSide, 0), (RightSide, 0)]
      \<and> led_after sd (snd (tick d x s)) v = (if led_present d sd then Some 1 else v))
   \<and> (current_state (fst (tick d x s)) = DEPLOYING_AID \<longrightarrow>
      motor_cmds (snd (tick d x s)) = [(LeftSide, 0), (RightSide, 0)]
      \<and> led_after sd (snd (tick d x s)) v =
          (if led_present d sd
           then Some (if aid_deploy_counter (fst (tick d x s)) smod 4 < 2 then 1 else 0)
           else v))
   \<and> (current_state (fst (tick d x s)) = SEARCHING \<longrightarrow>
      motor_cmds (snd (tick d x s)) = [(LeftSide, FORWARD_SPEED), (RightSide, FORWARD_SPEED)])
   \<and> FORWARD_SPEED = 5
   \<and> (0 \<le> c \<longrightarrow> c smod 4 = c mod 4 \<and> (c smod 4 < 2) = (c mod 4 = 0 \<or> c mod 4 = 1))"
  for c :: int
proof -
  have blink: "0 \<le> c \<longrightarrow> c smod 4 = c mod 4 \<and> (c smod 4 < 2) = (c mod 4 = 0 \<or> c mod 4 = 1)"
  proof
    assume "0 \<le> c"
    then have "c smod 4 = c mod 4" by (simp add: smod_int_alt_def sgn_if)
    moreover have "(c mod 4 < 2) = (c mod 4 = 0 \<or> c mod 4 = 1)" by presburger
    ultimately show "c smod 4 = c mod 4 \<and> (c smod 4 < 2) = (c mod 4 = 0 \<or> c mod 4 = 1)"
      by simp
  qed
  have rest: "(current_state (fst (tick d x s)) = ROBOT_TILTED \<longrightarrow>
      motor_cmds (snd (tick d x s)) = [(LeftSide, 0), (RightSide, 0)]
      \<and> led_after sd (snd (tick d x s)) v = (if led_present d sd then Some 1 else v))
   \<and> (current_state (fst (tick d x s)) = DEPLOYING_AID \<longrightarrow>
      motor_cmds (snd (tick d x s)) = [(LeftSide, 0), (RightSide, 0)]
      \<and> led_after sd (snd (tick d x s)) v =
          (if led_present d sd
           then Some (if aid_deploy_counter (fst (tick d x s)) smod 4 < 2 then 1 else 0)
           else v))
   \<and> (current_state (fst (tick d x s)) = SEARCHING \<longrightarrow>
      motor_cmds (snd (tick d x s)) = [(LeftSide, FORWARD_SPEED), (RightSide, FORWARD_SPEED)])
   \<and> FORWARD_SPEED = 5"
    by (simp add: tick_motor_cmds tick_led_after FORWARD_SPEED_def)
  show ?thesis using rest blink by blast
qed

theorem actuator_mapping_witness:
  "(current_state (fst (tick all_devices tilted_survivor_input initial_ctrl)) = ROBOT_TILTED
    \<and> motor_cmds (snd (tick all_devices tilted_survivor_input initial_ctrl))
        = [(LeftSide, 0), (RightSide, 0)]
    \<and> led_after LeftSide (snd (tick all_devices tilted_survivor_input initial_ctrl)) None
        = Some 1
    \<and> led_after RightSide (snd (tick all_devices tilted_survivor_input initial_ctrl)) None
        = Some 1)
   \<and> (current_state (fst (tick all_devices clear_input just_armed)) = DEPLOYING_AID
    \<and> aid_deploy_counter (fst (tick all_devices clear_input just_armed)) = 49
    \<and> motor_cmds (snd (tick all_devices clear_input just_armed))
        = [(LeftSide, 0), (RightSide, 0)]
    \<and> led_after LeftSide (snd (tick all_devices clear_input just_armed)) None = Some 1)
   \<and> (current_state (fst (tick all_devices clear_input initial_ctrl)) = SEARCHING
    \<and> motor_cmds (snd (tick all_devices clear_input initial_ctrl))
        = [(LeftSide, 5), (RightSide, 5)])
   \<and> ((0::int) \<le> 49 \<and> (49::int) smod 4 = 1)"
proof -
  have t: "current_state (fst (tick all_devices tilted_survivor_input initial_ctrl))
      = ROBOT_TILTED"
    using tilted_survivor_input_tilted by (simp add: tick_next_state initial_ctrl_def)
  have d: "current_state (fst (tick all_devices clear_input just_armed)) = DEPLOYING_AID"
    "aid_deploy_counter (fst (tick all_devices clear_input just_armed)) = 49"
    by (simp_all add: tick_next_state tick_next_counter just_armed_def)
  have s: "current_state (fst (tick all_devices clear_input initial_ctrl)) = SEARCHING"
    using clear_input_quiet clear_input_front
    by (simp add: tick_next_state initial_ctrl_def OBSTACLE_DISTANCE_THRESHOLD_def)
  have l: "led_present all_devices LeftSide" "led_present all_devices RightSide"
    by (simp_all add: all_devices_def)
  have z: "(0::int) \<le> 49" by simp
  note T1 = actuator_mapping [where d = all_devices and x = tilted_survivor_input
      and s = initial_ctrl and v = None and c = 49]
  note T2 = actuator_mapping [where d = all_devices and x = clear_input
      and s = just_armed and v = None and sd = LeftSide and c = 49]
  note T3 = actuator_mapping [where d = all_devices and x = clear_input
      and s = initial_ctrl and c = 49]
  from T1 [where sd = LeftSide] t l
  have c1: "motor_cmds (snd (tick all_devices tilted_survivor_input initial_ctrl))
        = [(LeftSide, 0), (RightSide, 0)]
    \<and> led_after LeftSide (snd (tick all_devices tilted_survivor_input initial_ctrl)) None
        = Some 1"
    by simp
  from T1 [where sd = RightSide] t l
  have c1': "led_after RightSide (snd (tick all_devices tilted_survivor_input initial_ctrl))
      None = Some 1"
    by simp
  from T2 z have m: "(49::int) smod 4 = 1" by simp
  from T2 d l m
  have c2: "motor_cmds (snd (tick all_devices clear_input just_armed))
        = [(LeftSide, 0), (RightSide, 0)]
    \<and> led_after LeftSide (snd (tick all_devices clear_input just_armed)) None = Some 1"
    by simp
  from T3 s have c3: "motor_cmds (snd (tick all_devices clear_input initial_ctrl))
        = [(LeftSide, 5), (RightSide, 5)]"
    by simp
  show ?thesis using t d s z m c1 c1' c2 c3 by blast
qed

section \<open>Missing devices\<close>

text \<open>
  C9 as stated: with both LEDs missing the whole run, setup and a step that would light
  them, prints no warning about them.
\<close>

theorem missing_led_logs_nothing:
  "main no_led_devices [tilted_survivor_input] =
     (0,
      \<lparr>current_state = ROBOT_TILTED, aid_deploy_counter = 0, debug_print_counter = 1\<rparr>,
      [MotorSetPositionInfinity LeftSide, MotorSetPositionInfinity RightSide,
       MotorSetVelocity LeftSide 0, MotorSetVelocity RightSide 0,
       DistanceSensorEnable 0 64, RecognitionEnable 0 64,
       DistanceSensorEnable 1 64, RecognitionEnable 1 64,
       DistanceSensorEnable 2 64, RecognitionEnable 2 64,
       AccelerometerEnable 64, EmitterSetChannel 1, Print ControllerInitialized,
       Print (SurvivorDetectedBySensor 1), Print ChangeRobotTilted,
       MotorSetVelocity LeftSide 0, MotorSetVelocity RightSide 0,
       Print (DebugLine ROBOT_TILTED 0 0.5 0.2 999 True True 0 0)])
   \<and> left_led no_led_devices = False \<and> right_led no_led_devices = False"
  by (simp add: main_def no_led_devices_def fixture_defs initial_ctrl_def tick_def
      read_sensors_eq tilted_def determine_state_eq event_triggers_def execute_actions_def
      led_set_def print_if_def setup_devices_def distance_sensors_def is_survivor_def
      TIME_STEP_def EMITTER_CHANNEL_def SURVIVOR_OBJECT_NAME_def SURVIVOR_DETECTION_RANGE_def
      TILT_THRESHOLD_def DS_SENTINEL_def)

text \<open>
  C9, amended. Without one of the wheel motors \<open>main\<close> returns 1 with no step run and
  nothing done. With both it returns 0 after running every step granted. The lines
  printed during setup are: one warning per distance sensor not found, one for the
  accelerometer, one error line for the emitter, and the initialization line. A distance
  sensor not found reads as 999.0 and an accelerometer not found as not tilted. An LED
  not found leaves setup unchanged (no line is printed for it) and changes a step only by
  dropping the commands to that LED. Without an emitter nothing is ever sent; the step
  on which a survivor is first detected still goes to \<open>DEPLOYING_AID\<close> and sets the
  counter to the full duration, prints the cannot-send line once, and the next step does
  not try again.
\<close>

theorem error_handling:
  "(\<not> left_motor d \<or> \<not> right_motor d \<longrightarrow> main d steps = (1, initial_ctrl, []))
   \<and> (left_motor d \<and> right_motor d \<longrightarrow>
        main d steps = (0, fst (control_loop d initial_ctrl steps),
                        setup_devices d @ snd (control_loop d initial_ctrl steps)))
   \<and> filter is_print (setup_devices d) =
        print_if (\<not> ds_front d) (WarnDistanceSensorNotFound 0)
        @ print_if (\<not> ds_left d) (WarnDistanceSensorNotFound 1)
        @ print_if (\<not> ds_right d) (WarnDistanceSensorNotFound 2)
        @ print_if (\<not> accelerometer d) WarnAccelerometerNotFound
        @ print_if (\<not> emitter d) ErrorEmitterNotFound
        @ [Print ControllerInitialized]
   \<and> (\<not> ds_front d \<longrightarrow> ds_values d x ! 0 = DS_SENTINEL)
   \<and> (\<not> ds_left d \<longrightarrow> ds_values d x ! 1 = DS_SENTINEL)
   \<and> (\<not> ds_right d \<longrightarrow> ds_values d x ! 2 = DS_SENTINEL)
   \<and> (\<not> accelerometer d \<longrightarrow> \<not> tilted d x)
   \<and> setup_devices (remove_led sd d) = setup_devices d
   \<and> tick (remove_led sd d) x s = (fst (tick d x s), without_led sd (snd (tick d x s)))
   \<and> (\<not> emitter d \<longrightarrow> sends (snd (control_loop d s steps)) = 0)
   \<and> (\<not> emitter d \<and> \<not> (0 < aid_deploy_counter s \<and> 0 < aid_deploy_counter s - 1)
        \<and> \<not> tilted d x \<and> survivor_detected_this_step d x
        \<and> current_state s \<noteq> DEPLOYING_AID \<longrightarrow>
        current_state (fst (tick d x s)) = DEPLOYING_AID
        \<and> aid_deploy_counter (fst (tick d x s)) = AID_DEPLOY_DURATION
        \<and> arms (snd (tick d x s)) = 1
        \<and> filter ((=) (Print EmitterCannotSend)) (snd (tick d x s)) = [Print EmitterCannotSend]
        \<and> arms (snd (tick d y (fst (tick d x s)))) = 0)"
proof -
  have fatal: "\<not> left_motor d \<or> \<not> right_motor d \<longrightarrow> main d steps = (1, initial_ctrl, [])"
    using main_fatal [of d steps] by blast
  have runs: "left_motor d \<and> right_motor d \<longrightarrow>
        main d steps = (0, fst (control_loop d initial_ctrl steps),
                        setup_devices d @ snd (control_loop d initial_ctrl steps))"
    using main_runs [of d steps] by blast
  have acc: "\<not> accelerometer d \<longrightarrow> \<not> tilted d x"
    using tilted_missing [of d x] by blast
  have nosend: "\<not> emitter d \<longrightarrow> sends (snd (control_loop d s steps)) = 0"
    using no_emitter_no_send [of d s steps] by blast
  have skipped: "\<not> emitter d \<and> \<not> (0 < aid_deploy_counter s \<and> 0 < aid_deploy_counter s - 1)
        \<and> \<not> tilted d x \<and> survivor_detected_this_step d x
        \<and> current_state s \<noteq> DEPLOYING_AID \<longrightarrow>
        current_state (fst (tick d x s)) = DEPLOYING_AID
        \<and> aid_deploy_counter (fst (tick d x s)) = AID_DEPLOY_DURATION
        \<and> arms (snd (tick d x s)) = 1
        \<and> filter ((=) (Print EmitterCannotSend)) (snd (tick d x s)) = [Print EmitterCannotSend]
        \<and> arms (snd (tick d y (fst (tick d x s)))) = 0"
  proof
    assume h: "\<not> emitter d \<and> \<not> (0 < aid_deploy_counter s \<and> 0 < aid_deploy_counter s - 1)
        \<and> \<not> tilted d x \<and> survivor_detected_this_step d x
        \<and> current_state s \<noteq> DEPLOYING_AID"
    have st: "current_state (fst (tick d x s)) = DEPLOYING_AID"
      using h by (auto simp: tick_next_state)
    moreover have "aid_deploy_counter (fst (tick d x s)) = AID_DEPLOY_DURATION"
      using h by (auto simp: tick_next_counter)
    moreover have "arms (snd (tick d x s)) = 1"
      using h by (auto simp: tick_next_arms)
    moreover have "filter ((=) (Print EmitterCannotSend)) (snd (tick d x s))
        = [Print EmitterCannotSend]"
      using h by (intro tick_cannot_send) simp_all
    moreover have "arms (snd (tick d y (fst (tick d x s)))) = 0"
      using st by (simp add: tick_next_arms)
    ultimately show "current_state (fst (tick d x s)) = DEPLOYING_AID
        \<and> aid_deploy_counter (fst (tick d x s)) = AID_DEPLOY_DURATION
        \<and> arms (snd (tick d x s)) = 1
        \<and> filter ((=) (Print EmitterCannotSend)) (snd (tick d x s)) = [Print EmitterCannotSend]
        \<and> arms (snd (tick d y (fst (tick d x s)))) = 0"
      by blast
  qed
  show ?thesis
    using fatal runs setup_prints [of d] ds_values_missing [of d x] acc
      remove_led_other(4) [of sd d] tick_remove_led [of sd d x s] nosend skipped
    by blast
qed

theorem error_handling_witness:
  "(\<not> left_motor no_motor_devices
    \<and> main no_motor_devices [clear_input] = (1, initial_ctrl, []))
   \<and> (left_motor all_devices \<and> right_motor all_devices
    \<and> main all_devices [clear_input] =
        (0, fst (control_loop all_devices initial_ctrl [clear_input]),
         setup_devices all_devices @ snd (control_loop all_devices initial_ctrl [clear_input])))
   \<and> (\<not> ds_front no_sensor_devices \<and> \<not> ds_left no_sensor_devices
    \<and> \<not> ds_right no_sensor_devices \<and> \<not> accelerometer no_sensor_devices
    \<and> ds_values no_sensor_devices tilted_survivor_input ! 0 = DS_SENTINEL
    \<and> ds_values no_sensor_devices tilted_survivor_input ! 1 = DS_SENTINEL
    \<and> ds_values no_sensor_devices tilted_survivor_input ! 2 = DS_SENTINEL
    \<and> \<not> tilted no_sensor_devices tilted_survivor_input)
   \<and> (\<not> emitter no_emitter_devices
    \<and> \<not> (0 < aid_deploy_counter initial_ctrl \<and> 0 < aid_deploy_counter initial_ctrl - 1)
    \<and> \<not> tilted no_emitter_devices survivor_input
    \<and> survivor_detected_this_step no_emitter_devices survivor_input
    \<and> current_state initial_ctrl \<noteq> DEPLOYING_AID
    \<and> sends (snd (control_loop no_emitter_devices initial_ctrl
         [survivor_input, survivor_input])) = 0
    \<and> current_state (fst (tick no_emitter_devices survivor_input initial_ctrl))
        = DEPLOYING_AID
    \<and> aid_deploy_counter (fst (tick no_emitter_devices survivor_input initial_ctrl))
        = AID_DEPLOY_DURATION
    \<and> filter ((=) (Print EmitterCannotSend))
         (snd (tick no_emitter_devices survivor_input initial_ctrl))
        = [Print EmitterCannotSend])"
proof -
  have m: "\<not> left_motor no_motor_devices"
    by (simp add: no_motor_devices_def all_devices_def)
  have a: "left_motor all_devices \<and> right_motor all_devices"
    by (simp add: all_devices_def)
  have n: "\<not> ds_front no_sensor_devices \<and> \<not> ds_left no_sensor_devices
    \<and> \<not> ds_right no_sensor_devices \<and> \<not> accelerometer no_sensor_devices"
    by (simp add: no_sensor_devices_def all_devices_def)
  have e: "\<not> emitter no_emitter_devices"
    by (simp add: no_emitter_devices_def all_devices_def)
  have i: "\<not> (0 < aid_deploy_counter initial_ctrl \<and> 0 < aid_deploy_counter initial_ctrl - 1)"
    "current_state initial_ctrl \<noteq> DEPLOYING_AID"
    by (simp_all add: initial_ctrl_def)
  note T1 = error_handling [where d = no_motor_devices and steps = "[clear_input]"]
  note T2 = error_handling [where d = all_devices and steps = "[clear_input]"]
  note T3 = error_handling [where d = no_sensor_devices and x = tilted_survivor_input]
  note T4 = error_handling [where d = no_emitter_devices and x = survivor_input
      and s = initial_ctrl and steps = "[survivor_input, survivor_input]"]
  from T1 m have c1: "main no_motor_devices [clear_input] = (1, initial_ctrl, [])"
    by blast
  from T2 a have c2: "main all_devices [clear_input] =
        (0, fst (control_loop all_devices initial_ctrl [clear_input]),
         setup_devices all_devices @ snd (control_loop all_devices initial_ctrl [clear_input]))"
    by blast
  from T3 n have c3: "ds_values no_sensor_devices tilted_survivor_input ! 0 = DS_SENTINEL
    \<and> ds_values no_sensor_devices tilted_survivor_input ! 1 = DS_SENTINEL
    \<and> ds_values no_sensor_devices tilted_survivor_input ! 2 = DS_SENTINEL
    \<and> \<not> tilted no_sensor_devices tilted_survivor_input"
    by blast
  from T4 e i no_emitter_survivor_input
  have c4: "sends (snd (control_loop no_emitter_devices initial_ctrl
         [survivor_input, survivor_input])) = 0
    \<and> current_state (fst (tick no_emitter_devices survivor_input initial_ctrl))
        = DEPLOYING_AID
    \<and> aid_deploy_counter (fst (tick no_emitter_devices survivor_input initial_ctrl))
        = AID_DEPLOY_DURATION
    \<and> filter ((=) (Print EmitterCannotSend))
         (snd (tick no_emitter_devices survivor_input initial_ctrl))
        = [Print EmitterCannotSend]"
    by blast
  show ?thesis
    using m a n e i no_emitter_survivor_input c1 c2 c3 c4 by blast
qed

end
